theory Spec2Isabelle
  imports Main
begin

section \<open>Values decoded from JSON\<close>

text \<open>
  \<^verbatim>\<open>json.loads\<close> yields None, bool, int, float, str, list or dict. A dict is kept as
  the list of its items in insertion order (its keys are distinct); \<^verbatim>\<open>JNull\<close> is
  Python's None. No function of the client computes with a float, so a float carries
  the text of its literal.
\<close>

datatype json =
    JNull
  | JBool bool
  | JInt int
  | JFloat string
  | JStr string
  | JList "json list"
  | JDict "(string \<times> json) list"

datatype exn =
    GetAltsAPIError json
  | NoCodeReceived
  | TransportError string
  | JSONDecodeError
  | KeyError string
  | ValueError json
  | TypeError
  | OverflowError
  | AttributeError
  | OtherException string

section \<open>Enumerations\<close>

datatype Service =
    Microsoft | Google | GMail | Yahoo | LinkedIN | Uber | WeChat | Instagram
  | LineMessenger | Telegram | VkCom | YouTube | Facebook | Steam | Yandex
  | Whatsapp | Tinder | Twitter | AnyOther

fun Service_value :: "Service \<Rightarrow> string" where
  "Service_value Microsoft = ''ms''"
| "Service_value Google = ''go''"
| "Service_value GMail = ''gm''"
| "Service_value Yahoo = ''yh''"
| "Service_value LinkedIN = ''ln''"
| "Service_value Uber = ''ub''"
| "Service_value WeChat = ''wc''"
| "Service_value Instagram = ''ig''"
| "Service_value LineMessenger = ''lm''"
| "Service_value Telegram = ''tg''"
| "Service_value VkCom = ''vk''"
| "Service_value YouTube = ''yt''"
| "Service_value Facebook = ''fb''"
| "Service_value Steam = ''st''"
| "Service_value Yandex = ''ya''"
| "Service_value Whatsapp = ''wp''"
| "Service_value Tinder = ''ti''"
| "Service_value Twitter = ''tw''"
| "Service_value AnyOther = ''ot''"

definition Service_members :: "Service list" where
  "Service_members =
     [Microsoft, Google, GMail, Yahoo, LinkedIN, Uber, WeChat, Instagram,
      LineMessenger, Telegram, VkCom, YouTube, Facebook, Steam, Yandex,
      Whatsapp, Tinder, Twitter, AnyOther]"

datatype Country =
    Russia | Ukraine | Kazakhstan | China | Philippines | Myanmar | Indonesia
  | Malaysia | Kenya | Tanzania | Vietnam | Kyrgyzstan | USA | Israel | HongKong
  | Poland | UnitedKingdom | Madagascar | Congo | Nigeria | Macau | Egypt
  | Ireland | Cambodia | Lao | Haiti | IvoryCoast | Gambia | Serbian | Yemen
  | SouthAfrica | Romania | Estonia | Azerbaijan | Canada | Morocco | Ghana
  | Argentina | Uzbekistan | Cameroon | Chad | Germany | Lithuania | Croatia
  | Iraq | Netherlands | India

fun Country_value :: "Country \<Rightarrow> string" where
  "Country_value Russia = ''ru''"
| "Country_value Ukraine = ''ua''"
| "Country_value Kazakhstan = ''kz''"
| "Country_value China = ''cn''"
| "Country_value Philippines = ''ph''"
| "Country_value Myanmar = ''mm''"
| "Country_value Indonesia = ''id''"
| "Country_value Malaysia = ''my''"
| "Country_value Kenya = ''ke''"
| "Country_value Tanzania = ''tz''"
| "Country_value Vietnam = ''vn''"
| "Country_value Kyrgyzstan = ''kg''"
| "Country_value USA = ''us''"
| "Country_value Israel = ''il''"
| "Country_value HongKong = ''hk''"
| "Country_value Poland = ''pl''"
| "Country_value UnitedKingdom = ''uk''"
| "Country_value Madagascar = ''mg''"
| "Country_value Congo = ''cg''"
| "Country_value Nigeria = ''ng''"
| "Country_value Macau = ''mo''"
| "Country_value Egypt = ''eg''"
| "Country_value Ireland = ''ie''"
| "Country_value Cambodia = ''kh''"
| "Country_value Lao = ''la''"
| "Country_value Haiti = ''ht''"
| "Country_value IvoryCoast = ''ci''"
| "Country_value Gambia = ''gm''"
| "Country_value Serbian = ''rs''"
| "Country_value Yemen = ''ye''"
| "Country_value SouthAfrica = ''za''"
| "Country_value Romania = ''ro''"
| "Country_value Estonia = ''ee''"
| "Country_value Azerbaijan = ''az''"
| "Country_value Canada = ''ca''"
| "Country_value Morocco = ''ma''"
| "Country_value Ghana = ''gh''"
| "Country_value Argentina = ''ar''"
| "Country_value Uzbekistan = ''uz''"
| "Country_value Cameroon = ''cm''"
| "Country_value Chad = ''tg''"
| "Country_value Germany = ''de''"
| "Country_value Lithuania = ''lt''"
| "Country_value Croatia = ''hr''"
| "Country_value Iraq = ''iq''"
| "Country_value Netherlands = ''nl''"
| "Country_value India = ''in''"

definition Country_members :: "Country list" where
  "Country_members =
     [Russia, Ukraine, Kazakhstan, China, Philippines, Myanmar, Indonesia,
      Malaysia, Kenya, Tanzania, Vietnam, Kyrgyzstan, USA, Israel, HongKong,
      Poland, UnitedKingdom, Madagascar, Congo, Nigeria, Macau, Egypt,
      Ireland, Cambodia, Lao, Haiti, IvoryCoast, Gambia, Serbian, Yemen,
      SouthAfrica, Romania, Estonia, Azerbaijan, Canada, Morocco, Ghana,
      Argentina, Uzbekistan, Cameroon, Chad, Germany, Lithuania, Croatia,
      Iraq, Netherlands, India]"

datatype Status =
    Ready | AccessReady | WaitingForCode | Cancelled | AccessConfirmGet | StatusOk

fun Status_value :: "Status \<Rightarrow> string" where
  "Status_value Ready = ''READY''"
| "Status_value AccessReady = ''ACCESS_READY''"
| "Status_value WaitingForCode = ''STATUS_WAIT_CODE''"
| "Status_value Cancelled = ''ACCESS_CANCEL''"
| "Status_value AccessConfirmGet = ''ACCESS_CONFIRM_GET''"
| "Status_value StatusOk = ''STATUS_OK''"

definition Status_members :: "Status list" where
  "Status_members =
     [Ready, AccessReady, WaitingForCode, Cancelled, AccessConfirmGet, StatusOk]"

text \<open>The class \<^verbatim>\<open>_Action\<close> of the source.\<close>

datatype Action = SendSMS | Cancel | End | SendAnotherCode | AlreadyUsed

fun Action_value :: "Action \<Rightarrow> string" where
  "Action_value SendSMS = ''SMS_SENT''"
| "Action_value Cancel = ''CANCEL''"
| "Action_value End = ''END''"
| "Action_value SendAnotherCode = ''ONE_MORE_CODE''"
| "Action_value AlreadyUsed = ''ALREADY_USED''"

text \<open>
  Calling an \<^verbatim>\<open>Enum\<close> class on a value, as in \<^verbatim>\<open>Status(x)\<close>, returns the member
  whose value equals \<^verbatim>\<open>x\<close>, the first in definition order, and raises ValueError when
  there is none. The members' values are strings, so only a string can be equal to one.
\<close>

definition enum_call :: "'a list \<Rightarrow> ('a \<Rightarrow> string) \<Rightarrow> json \<Rightarrow> exn + 'a" where
  "enum_call members val x =
     (case find (\<lambda>m. JStr (val m) = x) members of
        Some m \<Rightarrow> Inr m
      | None \<Rightarrow> Inl (ValueError x))"

definition Service_call :: "json \<Rightarrow> exn + Service" where
  "Service_call x = enum_call Service_members Service_value x"

definition Country_call :: "json \<Rightarrow> exn + Country" where
  "Country_call x = enum_call Country_members Country_value x"

definition Status_call :: "json \<Rightarrow> exn + Status" where
  "Status_call x = enum_call Status_members Status_value x"

section \<open>Dictionaries and strings\<close>

text \<open>
  \<^verbatim>\<open>x in result\<close>: a key of a dict, an element of a list, a substring of a string;
  TypeError for the values that are not containers.
\<close>

fun starts_with :: "string \<Rightarrow> string \<Rightarrow> bool" where
  "starts_with [] s = True"
| "starts_with (p # ps) [] = False"
| "starts_with (p # ps) (c # cs) = (p = c \<and> starts_with ps cs)"

fun substring_in :: "string \<Rightarrow> string \<Rightarrow> bool" where
  "substring_in p [] = (p = [])"
| "substring_in p (c # cs) = (starts_with p (c # cs) \<or> substring_in p cs)"

definition contains :: "json \<Rightarrow> string \<Rightarrow> exn + bool" where
  "contains result k =
     (case result of
        JDict d \<Rightarrow> Inr (map_of d k \<noteq> None)
      | JList xs \<Rightarrow> Inr (JStr k \<in> set xs)
      | JStr s \<Rightarrow> Inr (substring_in k s)
      | _ \<Rightarrow> Inl TypeError)"

text \<open>\<^verbatim>\<open>result[k]\<close> with a string \<^verbatim>\<open>k\<close>: KeyError on a dict without the key, TypeError
  on everything that is not a dict.\<close>

definition getitem :: "json \<Rightarrow> string \<Rightarrow> exn + json" where
  "getitem result k =
     (case result of
        JDict d \<Rightarrow> (case map_of d k of Some v \<Rightarrow> Inr v | None \<Rightarrow> Inl (KeyError k))
      | _ \<Rightarrow> Inl TypeError)"

text \<open>\<^verbatim>\<open>response.get(k, default)\<close> and \<^verbatim>\<open>response.items()\<close> exist on a dict only.\<close>

definition dict_get :: "json \<Rightarrow> string \<Rightarrow> json \<Rightarrow> exn + json" where
  "dict_get response k dflt =
     (case response of
        JDict d \<Rightarrow> Inr (case map_of d k of Some v \<Rightarrow> v | None \<Rightarrow> dflt)
      | _ \<Rightarrow> Inl AttributeError)"

definition items :: "json \<Rightarrow> exn + (string \<times> json) list" where
  "items response = (case response of JDict d \<Rightarrow> Inr d | _ \<Rightarrow> Inl AttributeError)"

text \<open>\<^verbatim>\<open>params.update(token=...)\<close>: an existing key keeps its place, a new one goes last.\<close>

fun dict_update :: "(string \<times> json) list \<Rightarrow> string \<Rightarrow> json \<Rightarrow> (string \<times> json) list" where
  "dict_update [] k v = [(k, v)]"
| "dict_update ((k', v') # kvs) k v =
     (if k' = k then (k, v) # kvs else (k', v') # dict_update kvs k v)"

text \<open>\<^verbatim>\<open>str.lower\<close>, on the ASCII letters that the action names are made of.\<close>

definition lower_char :: "char \<Rightarrow> char" where
  "lower_char c =
     (case map_of (zip ''ABCDEFGHIJKLMNOPQRSTUVWXYZ'' ''abcdefghijklmnopqrstuvwxyz'') c of
        Some l \<Rightarrow> l
      | None \<Rightarrow> c)"

definition lower :: "string \<Rightarrow> string" where
  "lower s = map lower_char s"

text \<open>The dict comprehension \<^verbatim>\<open>{E(k): v for k, v in response.items()}\<close>: the first key
  that \<^verbatim>\<open>E\<close> rejects raises.\<close>

fun decode_keys :: "(json \<Rightarrow> exn + 'a) \<Rightarrow> (string \<times> json) list \<Rightarrow> exn + ('a \<times> json) list" where
  "decode_keys E [] = Inr []"
| "decode_keys E ((k, v) # kvs) =
     (case E (JStr k) of
        Inl e \<Rightarrow> Inl e
      | Inr m \<Rightarrow> (case decode_keys E kvs of
                   Inl e \<Rightarrow> Inl e
                 | Inr r \<Rightarrow> Inr ((m, v) # r)))"

section \<open>Activation contexts, the store and the world\<close>

text \<open>
  An \<^verbatim>\<open>ActivationContext\<close> is a mutable object that the caller and the client share, so
  the model keeps the objects in a store and passes references. Python does not
  enforce the field annotations (\<^verbatim>\<open>str\<close>, \<^verbatim>\<open>int\<close>): a field holds whatever the decoded
  response held, and \<^verbatim>\<open>code = None\<close> is \<open>JNull\<close>.
\<close>

type_synonym ref = nat

record ActivationContext =
  phone_number :: json
  activation_id :: json
  status :: Status
  code :: json

text \<open>
  A \<^verbatim>\<open>datetime\<close> is a point between \<^verbatim>\<open>datetime.min\<close> (year 1) and \<^verbatim>\<open>datetime.max\<close> (the
  last microsecond of year 9999): the number of microseconds since \<^verbatim>\<open>datetime.min\<close>.
  A \<^verbatim>\<open>timedelta\<close> is a number of microseconds, of either sign.
\<close>

definition datetime_max :: int where
  "datetime_max = 315537897599999999"

typedef datetime = "{0 .. datetime_max}"
  by (auto simp: datetime_max_def)

definition micros :: "datetime \<Rightarrow> int" where
  "micros t = Rep_datetime t"

text \<open>The datetime at a number of microseconds, the nearest one when there is none.\<close>

definition datetime_of :: "int \<Rightarrow> datetime" where
  "datetime_of i = Abs_datetime (max 0 (min datetime_max i))"

text \<open>
  \<^verbatim>\<open>datetime + timedelta\<close> raises OverflowError when the sum is not a datetime.
\<close>

definition datetime_add :: "datetime \<Rightarrow> int \<Rightarrow> exn + datetime" where
  "datetime_add t delta =
     (if 0 \<le> micros t + delta \<and> micros t + delta \<le> datetime_max
      then Inr (datetime_of (micros t + delta))
      else Inl OverflowError)"

text \<open>
  What one HTTP exchange gives back: a failure of the transport (connection,
  timeout, \<^verbatim>\<open>raise_for_status\<close>), a body that \<^verbatim>\<open>json.loads\<close> rejects, or the decoded body.
\<close>

datatype http_outcome = TransportFailure string | InvalidBody | Decoded json

text \<open>The observable actions, in the order they happen.\<close>

datatype event =
    Request string "(string \<times> json) list"
  | Sleep int
  | Invoke ref

text \<open>
  The world: the store of contexts and the next free reference; the wall clock as the
  sequence of readings that successive \<^verbatim>\<open>datetime.now()\<close> calls return and the
  number of readings taken; the remote service as the answer to the n-th
  request, given its URL and parameters, and the number of requests sent; the trace.
  Logging is not part of the world.
\<close>

record world =
  store :: "ref \<Rightarrow> ActivationContext"
  next_ref :: ref
  clock :: "nat \<Rightarrow> datetime"
  ticks :: nat
  remote :: "nat \<Rightarrow> string \<Rightarrow> (string \<times> json) list \<Rightarrow> http_outcome"
  sent :: nat
  trace :: "event list"

record GetAltsClient =
  token :: string
  timeout :: int

definition datetime_now :: "world \<Rightarrow> datetime \<times> world" where
  "datetime_now w = (clock w (ticks w), w\<lparr>ticks := Suc (ticks w)\<rparr>)"

definition asyncio_sleep :: "int \<Rightarrow> world \<Rightarrow> world" where
  "asyncio_sleep seconds w = w\<lparr>trace := trace w @ [Sleep seconds]\<rparr>"

section \<open>The client\<close>

definition base_url :: string where
  "base_url = ''http://getalts.club/api''"

text \<open>\<^verbatim>\<open>_endpoint\<close>\<close>

definition endpoint :: "string \<Rightarrow> string" where
  "endpoint name = base_url @ ''/'' @ name"

text \<open>The parameters \<^verbatim>\<open>_get\<close> sends: \<^verbatim>\<open>query_params or dict()\<close>, with the token.\<close>

definition request_params :: "GetAltsClient \<Rightarrow> (string \<times> json) list option \<Rightarrow> (string \<times> json) list" where
  "request_params self query_params =
     dict_update (case query_params of None \<Rightarrow> [] | Some q \<Rightarrow> q) ''token'' (JStr (token self))"

text \<open>\<^verbatim>\<open>_get\<close>\<close>

definition client_get ::
  "GetAltsClient \<Rightarrow> string \<Rightarrow> (string \<times> json) list option \<Rightarrow> world \<Rightarrow> (exn + json) \<times> world" where
  "client_get self name query_params w =
     (let params = request_params self query_params;
          url = endpoint name;
          w1 = w\<lparr>sent := Suc (sent w), trace := trace w @ [Request url params]\<rparr>
      in case remote w (sent w) url params of
           TransportFailure msg \<Rightarrow> (Inl (TransportError msg), w1)
         | InvalidBody \<Rightarrow> (Inl JSONDecodeError, w1)
         | Decoded result \<Rightarrow>
             (case contains result ''error'' of
                Inl e \<Rightarrow> (Inl e, w1)
              | Inr True \<Rightarrow>
                  (case getitem result ''error'' of
                     Inl e \<Rightarrow> (Inl e, w1)
                   | Inr msg \<Rightarrow> (Inl (GetAltsAPIError msg), w1))
              | Inr False \<Rightarrow> (Inr result, w1)))"

text \<open>\<^verbatim>\<open>ActivationContext._from_dict\<close>: a new object, at the next free reference.\<close>

definition from_dict :: "json \<Rightarrow> world \<Rightarrow> (exn + ref) \<times> world" where
  "from_dict data w =
     (case getitem data ''phone_number'' of
        Inl e \<Rightarrow> (Inl e, w)
      | Inr pn \<Rightarrow>
     (case getitem data ''activation_id'' of
        Inl e \<Rightarrow> (Inl e, w)
      | Inr aid \<Rightarrow>
     (case getitem data ''status'' of
        Inl e \<Rightarrow> (Inl e, w)
      | Inr st \<Rightarrow>
     (case Status_call st of
        Inl e \<Rightarrow> (Inl e, w)
      | Inr s \<Rightarrow>
          (Inr (next_ref w),
           w\<lparr>store := (store w)(next_ref w :=
                 \<lparr>phone_number = pn, activation_id = aid, status = s, code = JNull\<rparr>),
             next_ref := Suc (next_ref w)\<rparr>)))))"

text \<open>\<^verbatim>\<open>__context_from_response\<close>: two assignments to the object it was given.\<close>

definition context_from_response :: "ref \<Rightarrow> json \<Rightarrow> world \<Rightarrow> (exn + ref) \<times> world" where
  "context_from_response old_context response w =
     (case getitem response ''status'' of
        Inl e \<Rightarrow> (Inl e, w)
      | Inr st \<Rightarrow>
     (case Status_call st of
        Inl e \<Rightarrow> (Inl e, w)
      | Inr s \<Rightarrow>
     (let w1 = w\<lparr>store := (store w)(old_context := (store w old_context)\<lparr>status := s\<rparr>)\<rparr>
      in case dict_get response ''code'' JNull of
           Inl e \<Rightarrow> (Inl e, w1)
         | Inr c \<Rightarrow>
             (Inr old_context,
              w1\<lparr>store := (store w1)(old_context := (store w1 old_context)\<lparr>code := c\<rparr>)\<rparr>))))"

definition get_balance :: "GetAltsClient \<Rightarrow> world \<Rightarrow> (exn + json) \<times> world" where
  "get_balance self w =
     (case client_get self ''get_balance'' None w of
        (Inl e, w1) \<Rightarrow> (Inl e, w1)
      | (Inr response, w1) \<Rightarrow> (getitem response ''balance'', w1))"

definition keyed_by :: "(json \<Rightarrow> exn + 'a) \<Rightarrow> json \<Rightarrow> exn + ('a \<times> json) list" where
  "keyed_by E response =
     (case items response of Inl e \<Rightarrow> Inl e | Inr kvs \<Rightarrow> decode_keys E kvs)"

definition get_available_numbers_count ::
  "GetAltsClient \<Rightarrow> Country \<Rightarrow> world \<Rightarrow> (exn + (Service \<times> json) list) \<times> world" where
  "get_available_numbers_count self country w =
     (case client_get self ''get_amount'' (Some [(''country'', JStr (Country_value country))]) w of
        (Inl e, w1) \<Rightarrow> (Inl e, w1)
      | (Inr response, w1) \<Rightarrow> (keyed_by Service_call response, w1))"

definition get_prices_by_country ::
  "GetAltsClient \<Rightarrow> Country \<Rightarrow> world \<Rightarrow> (exn + (Service \<times> json) list) \<times> world" where
  "get_prices_by_country self country w =
     (case client_get self ''get_prices_by_country''
             (Some [(''country'', JStr (Country_value country))]) w of
        (Inl e, w1) \<Rightarrow> (Inl e, w1)
      | (Inr response, w1) \<Rightarrow> (keyed_by Service_call response, w1))"

definition get_prices_by_service ::
  "GetAltsClient \<Rightarrow> Service \<Rightarrow> world \<Rightarrow> (exn + (Country \<times> json) list) \<times> world" where
  "get_prices_by_service self service w =
     (case client_get self ''get_prices_by_service''
             (Some [(''service'', JStr (Service_value service))]) w of
        (Inl e, w1) \<Rightarrow> (Inl e, w1)
      | (Inr response, w1) \<Rightarrow> (keyed_by Country_call response, w1))"

definition buy_number ::
  "GetAltsClient \<Rightarrow> Service \<Rightarrow> Country \<Rightarrow> world \<Rightarrow> (exn + ref) \<times> world" where
  "buy_number self service country w =
     (case client_get self ''buy_number''
             (Some [(''service'', JStr (Service_value service)),
                    (''country'', JStr (Country_value country))]) w of
        (Inl e, w1) \<Rightarrow> (Inl e, w1)
      | (Inr response, w1) \<Rightarrow> from_dict response w1)"

definition get_activation_status :: "GetAltsClient \<Rightarrow> ref \<Rightarrow> world \<Rightarrow> (exn + ref) \<times> world" where
  "get_activation_status self activation_context w =
     (case client_get self ''get_activation_status''
             (Some [(''activation_id'', activation_id (store w activation_context))]) w of
        (Inl e, w1) \<Rightarrow> (Inl e, w1)
      | (Inr response, w1) \<Rightarrow> context_from_response activation_context response w1)"

text \<open>\<^verbatim>\<open>_set_activation_status\<close>\<close>

definition set_activation_status ::
  "GetAltsClient \<Rightarrow> ref \<Rightarrow> Action \<Rightarrow> world \<Rightarrow> (exn + ref) \<times> world" where
  "set_activation_status self activation_context new_status w =
     (case client_get self ''set_activation_status''
             (Some [(''activation_id'', activation_id (store w activation_context)),
                    (''status'', JStr (lower (Action_value new_status)))]) w of
        (Inl e, w1) \<Rightarrow> (Inl e, w1)
      | (Inr response, w1) \<Rightarrow> context_from_response activation_context response w1)"

definition set_ready_for_code :: "GetAltsClient \<Rightarrow> ref \<Rightarrow> world \<Rightarrow> (exn + ref) \<times> world" where
  "set_ready_for_code self activation_context w =
     set_activation_status self activation_context SendSMS w"

definition end_activation :: "GetAltsClient \<Rightarrow> ref \<Rightarrow> world \<Rightarrow> (exn + ref) \<times> world" where
  "end_activation self activation_context w =
     set_activation_status self activation_context End w"

definition send_another_code :: "GetAltsClient \<Rightarrow> ref \<Rightarrow> world \<Rightarrow> (exn + ref) \<times> world" where
  "send_another_code self activation_context w =
     set_activation_status self activation_context SendAnotherCode w"

definition mark_number_as_already_used ::
  "GetAltsClient \<Rightarrow> ref \<Rightarrow> world \<Rightarrow> (exn + ref) \<times> world" where
  "mark_number_as_already_used self activation_context w =
     set_activation_status self activation_context AlreadyUsed w"

text \<open>\<^verbatim>\<open>cancel_activation\<close>: the handler catches \<^verbatim>\<open>GetAltsAPIError\<close> and nothing else.\<close>

definition cancel_activation :: "GetAltsClient \<Rightarrow> ref \<Rightarrow> world \<Rightarrow> (exn + ref) \<times> world" where
  "cancel_activation self activation_context w =
     (case set_activation_status self activation_context Cancel w of
        (Inl (GetAltsAPIError msg), w1) \<Rightarrow> mark_number_as_already_used self activation_context w1
      | (Inl e, w1) \<Rightarrow> (Inl e, w1)
      | (Inr r, w1) \<Rightarrow> (Inr r, w1))"

section \<open>Waiting for the code\<close>

text \<open>
  The callback is the caller's code: it receives the context and may change the world
  and raise. \<^verbatim>\<open>inspect.iscoroutinefunction\<close> tells the two kinds apart; either is
  called once, the coroutine function's result being awaited.
\<close>

datatype callback =
    Function "ref \<Rightarrow> world \<Rightarrow> (exn + unit) \<times> world"
  | CoroutineFunction "ref \<Rightarrow> world \<Rightarrow> (exn + unit) \<times> world"

definition call_callback :: "callback \<Rightarrow> ref \<Rightarrow> world \<Rightarrow> (exn + unit) \<times> world" where
  "call_callback cb context w =
     (let w1 = w\<lparr>trace := trace w @ [Invoke context]\<rparr>
      in case cb of
           CoroutineFunction f \<Rightarrow> f context w1
         | Function f \<Rightarrow> f context w1)"

text \<open>
  The \<^verbatim>\<open>while True\<close> loop of \<^verbatim>\<open>register_code_received_callback\<close>. It need not end (a
  clock that never passes the deadline, a code that never comes): \<open>None\<close> is the run
  that does not return. The deadline \<^verbatim>\<open>start + max_wait\<close> is computed at every check,
  after the clock is read; \<^verbatim>\<open>max_wait\<close> is in microseconds, the sleep in seconds.
\<close>

partial_function (option) poll_loop ::
  "GetAltsClient \<Rightarrow> ref \<Rightarrow> datetime \<Rightarrow> int \<Rightarrow> world \<Rightarrow> ((exn + ref) \<times> world) option" where
  "poll_loop self context start max_wait w =
     (case datetime_now w of
        (now, w1) \<Rightarrow>
          (case datetime_add start max_wait of
             Inl e \<Rightarrow> Some (Inl e, w1)
           | Inr deadline \<Rightarrow>
               if micros now > micros deadline then Some (Inl NoCodeReceived, w1)
               else (case get_activation_status self context w1 of
                       (Inl e, w2) \<Rightarrow> Some (Inl e, w2)
                     | (Inr context', w2) \<Rightarrow>
                         if code (store w2 context') \<noteq> JNull then Some (Inr context', w2)
                         else poll_loop self context' start max_wait (asyncio_sleep 5 w2))))"

definition register_code_received_callback ::
  "GetAltsClient \<Rightarrow> callback \<Rightarrow> ref \<Rightarrow> int \<Rightarrow> world \<Rightarrow> ((exn + unit) \<times> world) option" where
  "register_code_received_callback self cb for_context max_wait w =
     (case datetime_now w of
        (start, w1) \<Rightarrow>
          (case poll_loop self for_context start max_wait w1 of
             None \<Rightarrow> None
           | Some (Inl e, w2) \<Rightarrow> Some (Inl e, w2)
           | Some (Inr context, w2) \<Rightarrow> Some (call_callback cb context w2)))"

section \<open>Concrete clients, services and worlds\<close>

definition demo_client :: GetAltsClient where
  "demo_client = \<lparr>token = ''secret'', timeout = 10\<rparr>"

definition demo_context :: ActivationContext where
  "demo_context =
     \<lparr>phone_number = JStr ''+79001234567'', activation_id = JInt 42,
      status = Ready, code = JNull\<rparr>"

text \<open>A service that gives the same body to every request; a clock that stands still.\<close>

definition always :: "json \<Rightarrow> nat \<Rightarrow> string \<Rightarrow> (string \<times> json) list \<Rightarrow> http_outcome" where
  "always body n url params = Decoded body"

definition frozen_clock :: "nat \<Rightarrow> datetime" where
  "frozen_clock n = datetime_of 0"

text \<open>One context, at reference 0; nothing sent, no clock reading taken.\<close>

definition demo_world ::
  "(nat \<Rightarrow> string \<Rightarrow> (string \<times> json) list \<Rightarrow> http_outcome) \<Rightarrow> (nat \<Rightarrow> datetime) \<Rightarrow> world" where
  "demo_world service readings =
     \<lparr>store = (\<lambda>r. demo_context), next_ref = 1, clock = readings, ticks = 0,
      remote = service, sent = 0, trace = []\<rparr>"

definition code_arrived :: json where
  "code_arrived = JDict [(''status'', JStr ''STATUS_OK''), (''code'', JInt 12345)]"

definition status_request :: event where
  "status_request =
     Request ''http://getalts.club/api/get_activation_status''
       [(''activation_id'', JInt 42), (''token'', JStr ''secret'')]"

text \<open>The same world, whose context holds a code from an earlier refresh.\<close>

definition demo_world_with_code ::
  "(nat \<Rightarrow> string \<Rightarrow> (string \<times> json) list \<Rightarrow> http_outcome) \<Rightarrow> (nat \<Rightarrow> datetime) \<Rightarrow> world" where
  "demo_world_with_code service readings =
     (demo_world service readings)\<lparr>store := (\<lambda>r. demo_context\<lparr>code := JInt 999\<rparr>)\<rparr>"

definition still_waiting :: json where
  "still_waiting = JDict [(''status'', JStr ''STATUS_WAIT_CODE'')]"

definition no_balance :: json where
  "no_balance = JDict [(''error'', JStr ''NO_BALANCE'')]"

definition purchase_ready :: json where
  "purchase_ready =
     JDict [(''phone_number'', JStr ''+79001234567''), (''activation_id'', JInt 42),
            (''status'', JStr ''READY''), (''code'', JInt 12345)]"

definition purchase_waiting :: json where
  "purchase_waiting =
     JDict [(''phone_number'', JStr ''+79001234567''), (''activation_id'', JInt 42),
            (''status'', JStr ''STATUS_WAIT_CODE'')]"

text \<open>A service that rejects the action \<^verbatim>\<open>cancel\<close> and accepts every other request; a
  service that cannot be reached.\<close>

definition rejects_cancel :: "nat \<Rightarrow> string \<Rightarrow> (string \<times> json) list \<Rightarrow> http_outcome" where
  "rejects_cancel n url params =
     (if map_of params ''status'' = Some (JStr ''cancel'')
      then Decoded (JDict [(''error'', JStr ''BAD_STATUS'')])
      else Decoded (JDict [(''status'', JStr ''ACCESS_CANCEL'')]))"

definition unreachable :: "nat \<Rightarrow> string \<Rightarrow> (string \<times> json) list \<Rightarrow> http_outcome" where
  "unreachable n url params = TransportFailure ''timeout''"

definition set_status_request :: "string \<Rightarrow> event" where
  "set_status_request action =
     Request ''http://getalts.club/api/set_activation_status''
       [(''activation_id'', JInt 42), (''status'', JStr action), (''token'', JStr ''secret'')]"

text \<open>What \<^verbatim>\<open>except GetAltsAPIError\<close> catches.\<close>

fun is_api_error :: "exn \<Rightarrow> bool" where
  "is_api_error (GetAltsAPIError msg) = True"
| "is_api_error e = False"

text \<open>A service that reports the code from the third request on; clocks; a callback that
  does nothing.\<close>

definition code_on_third :: "nat \<Rightarrow> string \<Rightarrow> (string \<times> json) list \<Rightarrow> http_outcome" where
  "code_on_third n url params = (if n < 2 then Decoded still_waiting else Decoded code_arrived)"

text \<open>Readings 0, 0, 5 s, 10 s, ...: the time that passes is the time slept.\<close>

definition sleeping_clock :: "nat \<Rightarrow> datetime" where
  "sleeping_clock n = datetime_of (5000000 * int (n - 1))"

text \<open>Readings 0, 0, 1, 1, ...: two readings within one microsecond.\<close>

definition coarse_clock :: "nat \<Rightarrow> datetime" where
  "coarse_clock n = datetime_of (if n < 2 then 0 else 1)"

text \<open>Readings 0, 1, 2, ...: every reading is later than the one before.\<close>

definition running_clock :: "nat \<Rightarrow> datetime" where
  "running_clock n = datetime_of (int n)"

definition do_nothing :: "ref \<Rightarrow> world \<Rightarrow> (exn + unit) \<times> world" where
  "do_nothing context w = (Inr (), w)"

text \<open>A callback that raises.\<close>

definition gives_up :: "ref \<Rightarrow> world \<Rightarrow> (exn + unit) \<times> world" where
  "gives_up context w = (Inl (OtherException ''callback failed''), w)"

text \<open>\<^verbatim>\<open>timedelta.max\<close>, in microseconds.\<close>

definition timedelta_max :: int where
  "timedelta_max = 86399999999999999999"

text \<open>What a run leaves to see: its result and the trace.\<close>

definition observed :: "(('e + 'a) \<times> world) option \<Rightarrow> (('e + 'a) \<times> event list) option" where
  "observed run = map_option (\<lambda>(result, w). (result, trace w)) run"

section \<open>Enumerations: lookup by value\<close>

lemma enum_call_Inr_value:
  "enum_call members val x = Inr m \<Longrightarrow> JStr (val m) = x"
  by (auto simp: enum_call_def find_Some_iff split: option.splits)

lemma enum_call_unknown:
  assumes "\<And>m. JStr (val m) \<noteq> x"
  shows "enum_call members val x = Inl (ValueError x)"
proof -
  have "find (\<lambda>m. JStr (val m) = x) members = None"
    using assms by (simp add: find_None_iff)
  then show ?thesis by (simp add: enum_call_def)
qed

lemma Service_call_value: "Service_call (JStr (Service_value s)) = Inr s"
  by (cases s) (simp_all add: Service_call_def enum_call_def Service_members_def)

lemma Country_call_value: "Country_call (JStr (Country_value c)) = Inr c"
  by (cases c) (simp_all add: Country_call_def enum_call_def Country_members_def)

lemma Status_call_value: "Status_call (JStr (Status_value s)) = Inr s"
  by (cases s) (simp_all add: Status_call_def enum_call_def Status_members_def)

lemma Service_value_inj: "inj Service_value"
  by (rule injI) (metis Service_call_value sum.inject(2))

lemma Country_value_inj: "inj Country_value"
  by (rule injI) (metis Country_call_value sum.inject(2))

lemma Status_value_inj: "inj Status_value"
  by (rule injI) (metis Status_call_value sum.inject(2))

text \<open>
  C7. In each of \<open>Service\<close>, \<open>Country\<close> and \<open>Status\<close>, looking up the value of a member
  gives that member back, a lookup that succeeds returns a member whose value is the
  value looked up, and no two members have the same value.
\<close>

theorem enum_round_trip:
  "Service_call (JStr (Service_value s)) = Inr s
   \<and> Country_call (JStr (Country_value c)) = Inr c
   \<and> Status_call (JStr (Status_value t)) = Inr t
   \<and> (Service_call x = Inr s' \<longrightarrow> JStr (Service_value s') = x)
   \<and> (Country_call y = Inr c' \<longrightarrow> JStr (Country_value c') = y)
   \<and> (Status_call z = Inr t' \<longrightarrow> JStr (Status_value t') = z)
   \<and> inj Service_value \<and> inj Country_value \<and> inj Status_value"
  by (simp add: Service_call_value Country_call_value Status_call_value
        Service_value_inj Country_value_inj Status_value_inj)
     (auto simp: Service_call_def Country_call_def Status_call_def
        dest: enum_call_Inr_value)

theorem enum_round_trip_witness:
  "Service_call (JStr ''tg'') = Inr Telegram \<and> JStr (Service_value Telegram) = JStr ''tg''
   \<and> Country_call (JStr ''tg'') = Inr Chad \<and> JStr (Country_value Chad) = JStr ''tg''
   \<and> Status_call (JStr ''READY'') = Inr Ready \<and> JStr (Status_value Ready) = JStr ''READY''"
  using enum_round_trip [of Telegram Chad Ready "JStr ''tg''" Telegram "JStr ''tg''" Chad
      "JStr ''READY''" Ready]
  by simp

lemma xx_not_Service: "''xx'' \<notin> range Service_value"
proof
  assume "''xx'' \<in> range Service_value"
  then obtain m where "Service_value m = ''xx''" by auto
  then show False by (cases m) simp_all
qed

lemma xx_not_Country: "''xx'' \<notin> range Country_value"
proof
  assume "''xx'' \<in> range Country_value"
  then obtain m where "Country_value m = ''xx''" by auto
  then show False by (cases m) simp_all
qed

lemma xx_not_Status: "''xx'' \<notin> range Status_value"
proof
  assume "''xx'' \<in> range Status_value"
  then obtain m where "Status_value m = ''xx''" by auto
  then show False by (cases m) simp_all
qed

text \<open>
  C8. A string that is the value of no member of the enumeration is rejected by the
  lookup with ValueError (the failure the specification calls MalformedResponse); no
  member is returned in its place.
\<close>

theorem unknown_wire_code_fails:
  "(s \<notin> range Service_value \<longrightarrow> Service_call (JStr s) = Inl (ValueError (JStr s)))
   \<and> (s \<notin> range Country_value \<longrightarrow> Country_call (JStr s) = Inl (ValueError (JStr s)))
   \<and> (s \<notin> range Status_value \<longrightarrow> Status_call (JStr s) = Inl (ValueError (JStr s)))"
  unfolding Service_call_def Country_call_def Status_call_def
  by (auto intro!: enum_call_unknown)

theorem unknown_wire_code_fails_witness:
  "''xx'' \<notin> range Service_value \<and> ''xx'' \<notin> range Country_value \<and> ''xx'' \<notin> range Status_value
   \<and> Service_call (JStr ''xx'') = Inl (ValueError (JStr ''xx''))
   \<and> Country_call (JStr ''xx'') = Inl (ValueError (JStr ''xx''))
   \<and> Status_call (JStr ''xx'') = Inl (ValueError (JStr ''xx''))"
  using unknown_wire_code_fails [of "''xx''"] xx_not_Service xx_not_Country xx_not_Status
  by simp

section \<open>One request\<close>

lemma client_get_dict:
  assumes "remote w (sent w) (endpoint name) (request_params self qp) = Decoded (JDict d)"
  shows "client_get self name qp w =
    (case map_of d ''error'' of
       Some msg \<Rightarrow> Inl (GetAltsAPIError msg)
     | None \<Rightarrow> Inr (JDict d),
     w\<lparr>sent := Suc (sent w),
       trace := trace w @ [Request (endpoint name) (request_params self qp)]\<rparr>)"
  using assms
  by (simp add: client_get_def contains_def getitem_def Let_def split: option.splits)

lemma client_get_world:
  "snd (client_get self name qp w) =
     w\<lparr>sent := Suc (sent w),
       trace := trace w @ [Request (endpoint name) (request_params self qp)]\<rparr>"
  by (simp add: client_get_def Let_def split: http_outcome.splits sum.splits bool.splits)

lemma client_get_Inr:
  assumes "client_get self name qp w = (Inr response, w1)"
  shows "remote w (sent w) (endpoint name) (request_params self qp) = Decoded response
       \<and> contains response ''error'' = Inr False"
  using assms
  by (auto simp: client_get_def Let_def split: http_outcome.splits sum.splits bool.splits)

lemma context_from_response_dict:
  assumes "map_of d ''status'' = Some (JStr (Status_value s))"
  shows "context_from_response c (JDict d) w =
    (Inr c, w\<lparr>store := (store w)(c := (store w c)\<lparr>status := s,
        code := (case map_of d ''code'' of Some v \<Rightarrow> v | None \<Rightarrow> JNull)\<rparr>)\<rparr>)"
  using assms
  by (simp add: context_from_response_def getitem_def dict_get_def Status_call_value Let_def)

lemma context_from_response_Inr:
  assumes "context_from_response c response w = (Inr r, w')"
  shows "\<exists>d s. response = JDict d \<and> map_of d ''status'' = Some (JStr (Status_value s))"
proof -
  from assms obtain d where d: "response = JDict d"
    by (cases response) (auto simp: context_from_response_def getitem_def)
  from assms d obtain st where st: "map_of d ''status'' = Some st"
    by (cases "map_of d ''status''") (auto simp: context_from_response_def getitem_def)
  from assms d st obtain s where s: "Status_call st = Inr s"
    by (cases "Status_call st") (auto simp: context_from_response_def getitem_def)
  from s have "JStr (Status_value s) = st"
    by (simp add: Status_call_def enum_call_Inr_value)
  with d st show ?thesis by blast
qed

lemma context_from_response_Inl:
  assumes "context_from_response c response w = (Inl e, w')"
  shows "w' = w"
  using assms
  by (cases response)
     (auto simp: context_from_response_def getitem_def dict_get_def Let_def
           split: option.splits sum.splits)

section \<open>Refreshing and setting the status\<close>

lemma context_from_response_frame:
  assumes "context_from_response c response w = (Inr r, w')"
  shows "r = c \<and> w' = w\<lparr>store := (store w)(c := (store w c)\<lparr>status := status (store w' c),
            code := code (store w' c)\<rparr>)\<rparr>"
proof -
  from context_from_response_Inr [OF assms] obtain d s
    where d: "response = JDict d" and s: "map_of d ''status'' = Some (JStr (Status_value s))"
    by blast
  from assms show ?thesis
    unfolding d context_from_response_dict [OF s] by auto
qed

lemma store_after_get: "store (snd (client_get self name qp w)) = store w"
  by (simp add: client_get_world)

lemma next_ref_after_get: "next_ref (snd (client_get self name qp w)) = next_ref w"
  by (simp add: client_get_world)

lemma then_context_from_response_frame:
  assumes "(case client_get self name qp w of
              (Inl e, w1) \<Rightarrow> (Inl e, w1)
            | (Inr response, w1) \<Rightarrow> context_from_response c response w1) = (Inr r, w')"
  shows "r = c
     \<and> store w' = (store w)(c := (store w c)\<lparr>status := status (store w' c),
            code := code (store w' c)\<rparr>)
     \<and> next_ref w' = next_ref w"
proof -
  obtain res w1 where g: "client_get self name qp w = (res, w1)"
    by (cases "client_get self name qp w")
  have s1: "store w1 = store w" using store_after_get [of self name qp w] g by simp
  have n1: "next_ref w1 = next_ref w" using next_ref_after_get [of self name qp w] g by simp
  from assms g obtain response where "context_from_response c response w1 = (Inr r, w')"
    by (cases res) auto
  from context_from_response_frame [OF this] have "r = c"
    and w': "w' = w1\<lparr>store := (store w1)(c := (store w1 c)\<lparr>status := status (store w' c),
            code := code (store w' c)\<rparr>)\<rparr>" by auto
  have "store w' = (store w1)(c := (store w1 c)\<lparr>status := status (store w' c),
            code := code (store w' c)\<rparr>)" by (subst w') simp
  moreover have "next_ref w' = next_ref w1" by (subst w') simp
  ultimately show ?thesis using \<open>r = c\<close> s1 n1 by simp
qed

lemma then_context_from_response_failure:
  assumes "(case client_get self name qp w of
              (Inl e, w1) \<Rightarrow> (Inl e, w1)
            | (Inr response, w1) \<Rightarrow> context_from_response c response w1) = (Inl e, w')"
  shows "w' = snd (client_get self name qp w)"
proof -
  obtain res w1 where g: "client_get self name qp w = (res, w1)"
    by (cases "client_get self name qp w")
  show ?thesis
  proof (cases res)
    case (Inl a)
    with assms g show ?thesis by simp
  next
    case (Inr response)
    with assms g have "context_from_response c response w1 = (Inl e, w')" by simp
    from context_from_response_Inl [OF this] g show ?thesis by simp
  qed
qed

lemma demo_get_activation_status:
  "get_activation_status demo_client 0 (demo_world (always code_arrived) frozen_clock) =
     (Inr 0, (demo_world (always code_arrived) frozen_clock)
        \<lparr>store := (\<lambda>r. demo_context)(0 := demo_context\<lparr>status := StatusOk, code := JInt 12345\<rparr>),
         sent := 1, trace := [status_request]\<rparr>)"
  by (simp add: get_activation_status_def client_get_def request_params_def endpoint_def
        base_url_def demo_world_def demo_client_def demo_context_def always_def code_arrived_def
        contains_def getitem_def dict_get_def context_from_response_def Status_call_def
        enum_call_def Status_members_def Let_def status_request_def)

text \<open>
  C4. When \<^verbatim>\<open>get_activation_status\<close>, \<^verbatim>\<open>_set_activation_status\<close> or one of its four
  wrappers returns, it returns the reference it was given, and the store differs from
  the store before the call at that reference only, in the fields \<open>status\<close> and \<open>code\<close>
  only: \<open>phone_number\<close> and \<open>activation_id\<close> are what they were, and no object was
  created.
\<close>

theorem status_calls_mutate_in_place:
  assumes "f \<in> {get_activation_status self,
                (\<lambda>c. set_activation_status self c a),
                set_ready_for_code self, end_activation self,
                send_another_code self, mark_number_as_already_used self}"
    and "f c w = (Inr r, w')"
  shows "r = c
     \<and> store w' = (store w)(c := (store w c)\<lparr>status := status (store w' c),
            code := code (store w' c)\<rparr>)
     \<and> phone_number (store w' c) = phone_number (store w c)
     \<and> activation_id (store w' c) = activation_id (store w c)
     \<and> next_ref w' = next_ref w"
proof -
  from assms have "r = c
     \<and> store w' = (store w)(c := (store w c)\<lparr>status := status (store w' c),
            code := code (store w' c)\<rparr>)
     \<and> next_ref w' = next_ref w"
    unfolding set_ready_for_code_def end_activation_def send_another_code_def
      mark_number_as_already_used_def
    by (auto simp only: insert_iff empty_iff get_activation_status_def set_activation_status_def
          dest!: then_context_from_response_frame)
  moreover from this obtain st cd
    where S: "store w' = (store w)(c := (store w c)\<lparr>status := st, code := cd\<rparr>)"
    by blast
  have "phone_number (store w' c) = phone_number (store w c)"
    and "activation_id (store w' c) = activation_id (store w c)"
    by (simp_all add: S)
  ultimately show ?thesis by simp
qed

theorem status_calls_mutate_in_place_witness:
  "get_activation_status demo_client 0 (demo_world (always code_arrived) frozen_clock) =
     (Inr 0, (demo_world (always code_arrived) frozen_clock)
        \<lparr>store := (\<lambda>r. demo_context)(0 := demo_context\<lparr>status := StatusOk, code := JInt 12345\<rparr>),
         sent := 1, trace := [status_request]\<rparr>)
   \<and> phone_number (((\<lambda>r. demo_context)(0 := demo_context\<lparr>status := StatusOk, code := JInt 12345\<rparr>)) 0)
       = phone_number (store (demo_world (always code_arrived) frozen_clock) 0)
   \<and> activation_id (((\<lambda>r. demo_context)(0 := demo_context\<lparr>status := StatusOk, code := JInt 12345\<rparr>)) 0)
       = activation_id (store (demo_world (always code_arrived) frozen_clock) 0)"
  using status_calls_mutate_in_place [of "get_activation_status demo_client" demo_client
      Cancel 0 "demo_world (always code_arrived) frozen_clock" 0,
      OF _ demo_get_activation_status]
  by (simp add: demo_get_activation_status)

section \<open>Responses and contexts\<close>

lemmas client_defs =
  get_activation_status_def set_activation_status_def buy_number_def client_get_def
  request_params_def endpoint_def base_url_def contains_def getitem_def dict_get_def
  context_from_response_def from_dict_def Status_call_def enum_call_def Status_members_def
  lower_def lower_char_def Let_def

lemmas demo_defs =
  demo_world_def demo_world_with_code_def demo_client_def demo_context_def always_def
  code_arrived_def still_waiting_def no_balance_def purchase_ready_def purchase_waiting_def
  rejects_cancel_def unreachable_def status_request_def set_status_request_def

text \<open>
  C6. When the decoded body is a dict, \<^verbatim>\<open>_get\<close> raises \<^verbatim>\<open>GetAltsAPIError\<close> with the value
  under \<^verbatim>\<open>"error"\<close> if the dict has that key, and returns the dict if it has not; either
  way the store of contexts is what it was. So \<^verbatim>\<open>get_activation_status\<close>,
  \<^verbatim>\<open>_set_activation_status\<close> and \<^verbatim>\<open>buy_number\<close> raise that error on such a body and leave
  every context as it was.
\<close>

theorem error_response_raises:
  assumes "\<And>url params. remote w (sent w) url params = Decoded (JDict d)"
  shows "client_get self name qp w =
       (case map_of d ''error'' of
          Some msg \<Rightarrow> Inl (GetAltsAPIError msg)
        | None \<Rightarrow> Inr (JDict d),
        w\<lparr>sent := Suc (sent w),
          trace := trace w @ [Request (endpoint name) (request_params self qp)]\<rparr>)
     \<and> store (snd (client_get self name qp w)) = store w
     \<and> (map_of d ''error'' = Some msg \<longrightarrow>
          fst (get_activation_status self c w) = Inl (GetAltsAPIError msg)
        \<and> store (snd (get_activation_status self c w)) = store w
        \<and> fst (set_activation_status self c a w) = Inl (GetAltsAPIError msg)
        \<and> store (snd (set_activation_status self c a w)) = store w
        \<and> fst (buy_number self service country w) = Inl (GetAltsAPIError msg)
        \<and> store (snd (buy_number self service country w)) = store w)"
  by (simp add: client_get_dict [OF assms] get_activation_status_def
        set_activation_status_def buy_number_def)

theorem error_response_raises_witness:
  "remote (demo_world_with_code (always no_balance) frozen_clock)
      (sent (demo_world_with_code (always no_balance) frozen_clock))
      ''http://getalts.club/api/get_balance'' [(''token'', JStr ''secret'')]
     = Decoded (JDict [(''error'', JStr ''NO_BALANCE'')])
   \<and> map_of [(''error'', JStr ''NO_BALANCE'')] ''error'' = Some (JStr ''NO_BALANCE'')
   \<and> fst (get_activation_status demo_client 0
        (demo_world_with_code (always no_balance) frozen_clock))
      = Inl (GetAltsAPIError (JStr ''NO_BALANCE''))
   \<and> store (snd (get_activation_status demo_client 0
        (demo_world_with_code (always no_balance) frozen_clock))) 0
      = demo_context\<lparr>code := JInt 999\<rparr>"
  using error_response_raises [of "demo_world_with_code (always no_balance) frozen_clock"
      "[(''error'', JStr ''NO_BALANCE'')]" demo_client "''get_balance''" None
      "JStr ''NO_BALANCE''" 0 Cancel Telegram Russia]
  by (simp add: demo_defs)


lemma then_context_from_response_success:
  assumes g: "remote w (sent w) (endpoint name) (request_params self qp) = Decoded (JDict d)"
    and r: "(case client_get self name qp w of
              (Inl e, w1) \<Rightarrow> (Inl e, w1)
            | (Inr response, w1) \<Rightarrow> context_from_response c response w1) = (Inr r, w')"
  shows "map_of d ''status'' = Some (JStr (Status_value (status (store w' c))))
       \<and> code (store w' c) = (case map_of d ''code'' of Some v \<Rightarrow> v | None \<Rightarrow> JNull)"
proof -
  let ?w1 = "w\<lparr>sent := Suc (sent w),
       trace := trace w @ [Request (endpoint name) (request_params self qp)]\<rparr>"
  from r have c: "context_from_response c (JDict d) ?w1 = (Inr r, w')"
    unfolding client_get_dict [OF g] by (cases "map_of d ''error''") simp_all
  from context_from_response_Inr [OF c] obtain s
    where s: "map_of d ''status'' = Some (JStr (Status_value s))" by auto
  from c show ?thesis
    unfolding context_from_response_dict [OF s] using s by auto
qed

lemma then_context_from_response_dict:
  assumes g: "remote w (sent w) (endpoint name) (request_params self qp) = Decoded (JDict d)"
    and e: "map_of d ''error'' = None"
    and s: "map_of d ''status'' = Some (JStr (Status_value s))"
  shows "(case client_get self name qp w of
            (Inl e, w1) \<Rightarrow> (Inl e, w1)
          | (Inr response, w1) \<Rightarrow> context_from_response c response w1) =
         (Inr c, w\<lparr>store := (store w)(c := (store w c)\<lparr>status := s,
                     code := (case map_of d ''code'' of Some v \<Rightarrow> v | None \<Rightarrow> JNull)\<rparr>),
                   sent := Suc (sent w),
                   trace := trace w @ [Request (endpoint name) (request_params self qp)]\<rparr>)"
  unfolding client_get_dict [OF g]
  by (simp add: e context_from_response_dict [OF s])

lemma then_context_from_response_no_error:
  assumes g: "remote w (sent w) (endpoint name) (request_params self qp) = Decoded (JDict d)"
    and r: "(case client_get self name qp w of
              (Inl e, w1) \<Rightarrow> (Inl e, w1)
            | (Inr response, w1) \<Rightarrow> context_from_response c response w1) = (Inr r, w')"
  shows "map_of d ''error'' = None"
  using r unfolding client_get_dict [OF g] by (cases "map_of d ''error''") simp_all

text \<open>
  C9. A status query or a status change that is answered with a dict without \<^verbatim>\<open>"error"\<close>
  whose \<^verbatim>\<open>"status"\<close> is the value of a member sends one request and returns the context,
  with that member as its status and with the response's value under \<^verbatim>\<open>"code"\<close> as its code, or None when
  the response has no such key, whatever the code was before. Every call that returns
  was answered so: its context's status and code are the response's.
\<close>

theorem response_overwrites_status_and_code:
  assumes "\<And>url params. remote w (sent w) url params = Decoded (JDict d)"
    and "f \<in> {get_activation_status self,
                (\<lambda>c. set_activation_status self c a),
                set_ready_for_code self, end_activation self,
                send_another_code self, mark_number_as_already_used self}"
  shows "(map_of d ''error'' = None \<and> map_of d ''status'' = Some (JStr (Status_value s)) \<longrightarrow>
            fst (f c w) = Inr c
          \<and> sent (snd (f c w)) = Suc (sent w)
          \<and> store (snd (f c w)) =
              (store w)(c := (store w c)\<lparr>status := s,
                 code := (case map_of d ''code'' of Some v \<Rightarrow> v | None \<Rightarrow> JNull)\<rparr>))
       \<and> (f c w = (Inr r, w') \<longrightarrow>
            map_of d ''error'' = None
          \<and> map_of d ''status'' = Some (JStr (Status_value (status (store w' c))))
          \<and> code (store w' c) = (case map_of d ''code'' of Some v \<Rightarrow> v | None \<Rightarrow> JNull))"
proof (intro conjI impI)
  assume ok: "map_of d ''error'' = None \<and> map_of d ''status'' = Some (JStr (Status_value s))"
  note run = then_context_from_response_dict [OF assms(1) conjunct1 [OF ok] conjunct2 [OF ok]]
  from assms(2) show "fst (f c w) = Inr c"
    unfolding set_ready_for_code_def end_activation_def send_another_code_def
      mark_number_as_already_used_def
    by (auto simp only: insert_iff empty_iff get_activation_status_def
          set_activation_status_def run fst_conv)
  from assms(2) show "sent (snd (f c w)) = Suc (sent w)"
    unfolding set_ready_for_code_def end_activation_def send_another_code_def
      mark_number_as_already_used_def
    by (auto simp only: insert_iff empty_iff get_activation_status_def
          set_activation_status_def run snd_conv) simp_all
  from assms(2) show "store (snd (f c w)) =
      (store w)(c := (store w c)\<lparr>status := s,
         code := (case map_of d ''code'' of Some v \<Rightarrow> v | None \<Rightarrow> JNull)\<rparr>)"
    unfolding set_ready_for_code_def end_activation_def send_another_code_def
      mark_number_as_already_used_def
    by (auto simp only: insert_iff empty_iff get_activation_status_def
          set_activation_status_def run snd_conv) simp_all
next
  assume r: "f c w = (Inr r, w')"
  from assms(2) r show "map_of d ''error'' = None"
    unfolding set_ready_for_code_def end_activation_def send_another_code_def
      mark_number_as_already_used_def
    by (auto simp only: insert_iff empty_iff get_activation_status_def set_activation_status_def
          dest!: then_context_from_response_no_error [OF assms(1)])
  from assms(2) r have "map_of d ''status'' = Some (JStr (Status_value (status (store w' c))))
       \<and> code (store w' c) = (case map_of d ''code'' of Some v \<Rightarrow> v | None \<Rightarrow> JNull)"
    unfolding set_ready_for_code_def end_activation_def send_another_code_def
      mark_number_as_already_used_def
    by (auto simp only: insert_iff empty_iff get_activation_status_def set_activation_status_def
          dest!: then_context_from_response_success [OF assms(1)])
  then show "map_of d ''status'' = Some (JStr (Status_value (status (store w' c))))"
    and "code (store w' c) = (case map_of d ''code'' of Some v \<Rightarrow> v | None \<Rightarrow> JNull)"
    by simp_all
qed

theorem response_overwrites_status_and_code_witness:
  "code (store (demo_world_with_code (always still_waiting) frozen_clock) 0) = JInt 999
   \<and> fst (get_activation_status demo_client 0
        (demo_world_with_code (always still_waiting) frozen_clock)) = Inr 0
   \<and> store (snd (get_activation_status demo_client 0
        (demo_world_with_code (always still_waiting) frozen_clock))) 0
      = demo_context\<lparr>status := WaitingForCode, code := JNull\<rparr>
   \<and> fst (end_activation demo_client 0
        (demo_world_with_code (always code_arrived) frozen_clock)) = Inr 0
   \<and> store (snd (end_activation demo_client 0
        (demo_world_with_code (always code_arrived) frozen_clock))) 0
      = demo_context\<lparr>status := StatusOk, code := JInt 12345\<rparr>
   \<and> fst (set_activation_status demo_client 0 SendSMS
        (demo_world_with_code (always still_waiting) frozen_clock)) = Inr 0
   \<and> store (snd (set_activation_status demo_client 0 SendSMS
        (demo_world_with_code (always still_waiting) frozen_clock))) 0
      = demo_context\<lparr>status := WaitingForCode, code := JNull\<rparr>"
  using
    response_overwrites_status_and_code [where w = "demo_world_with_code (always still_waiting) frozen_clock"
      and d = "[(''status'', JStr ''STATUS_WAIT_CODE'')]" and s = WaitingForCode
      and f = "get_activation_status demo_client" and self = demo_client and a = Cancel
      and c = 0 and r = 0
      and w' = "snd (get_activation_status demo_client 0
                  (demo_world_with_code (always still_waiting) frozen_clock))"]
    response_overwrites_status_and_code [where w = "demo_world_with_code (always code_arrived) frozen_clock"
      and d = "[(''status'', JStr ''STATUS_OK''), (''code'', JInt 12345)]" and s = StatusOk
      and f = "end_activation demo_client" and self = demo_client and a = Cancel
      and c = 0 and r = 0
      and w' = "snd (end_activation demo_client 0
                  (demo_world_with_code (always code_arrived) frozen_clock))"]
    response_overwrites_status_and_code [where w = "demo_world_with_code (always still_waiting) frozen_clock"
      and d = "[(''status'', JStr ''STATUS_WAIT_CODE'')]" and s = WaitingForCode
      and f = "\<lambda>c. set_activation_status demo_client c SendSMS" and self = demo_client
      and a = SendSMS and c = 0 and r = 0
      and w' = "snd (set_activation_status demo_client 0 SendSMS
                  (demo_world_with_code (always still_waiting) frozen_clock))"]
  by (simp add: demo_defs)

lemma buy_number_Inr:
  assumes g: "remote w (sent w) url params = Decoded (JDict d)"
    and url: "url = endpoint ''buy_number''"
    and params: "params = request_params self (Some [(''service'', JStr (Service_value service)),
                    (''country'', JStr (Country_value country))])"
    and r: "buy_number self service country w = (Inr r, w')"
  shows "r = next_ref w \<and> next_ref w' = Suc (next_ref w)
       \<and> store w' = (store w)(r := store w' r)
       \<and> map_of d ''phone_number'' = Some (phone_number (store w' r))
       \<and> map_of d ''activation_id'' = Some (activation_id (store w' r))
       \<and> map_of d ''status'' = Some (JStr (Status_value (status (store w' r))))
       \<and> code (store w' r) = JNull"
proof -
  let ?w1 = "w\<lparr>sent := Suc (sent w), trace := trace w @ [Request url params]\<rparr>"
  from r have f: "from_dict (JDict d) ?w1 = (Inr r, w')"
    unfolding buy_number_def client_get_dict [OF g [unfolded url params]] url params
    by (cases "map_of d ''error''") simp_all
  then obtain pn aid st s where
    "map_of d ''phone_number'' = Some pn" "map_of d ''activation_id'' = Some aid"
    "map_of d ''status'' = Some st" "Status_call st = Inr s"
    and w': "r = next_ref w" "w' = ?w1\<lparr>store := (store w)(next_ref w :=
                 \<lparr>phone_number = pn, activation_id = aid, status = s, code = JNull\<rparr>),
             next_ref := Suc (next_ref w)\<rparr>"
    by (auto simp: from_dict_def getitem_def split: option.splits sum.splits)
  moreover from this have "JStr (Status_value s) = st"
    by (simp add: Status_call_def enum_call_Inr_value)
  ultimately show ?thesis by auto
qed

lemma demo_buy_waiting:
  "buy_number demo_client Telegram Russia (demo_world (always purchase_waiting) frozen_clock) =
     (Inr 1, (demo_world (always purchase_waiting) frozen_clock)
        \<lparr>store := (\<lambda>r. demo_context)(1 :=
            \<lparr>phone_number = JStr ''+79001234567'', activation_id = JInt 42,
             status = WaitingForCode, code = JNull\<rparr>),
         next_ref := 2, sent := 1,
         trace := [Request ''http://getalts.club/api/buy_number''
                    [(''service'', JStr ''tg''), (''country'', JStr ''ru''),
                     (''token'', JStr ''secret'')]]\<rparr>)"
  by (simp add: client_defs demo_defs)

text \<open>
  C5 as stated fails: the status is not always \<open>Ready\<close>. A purchase answered with
  status \<^verbatim>\<open>STATUS_WAIT_CODE\<close> gives a context whose status is \<open>WaitingForCode\<close>.
\<close>

theorem buy_number_status_not_always_Ready:
  "fst (buy_number demo_client Telegram Russia
          (demo_world (always purchase_waiting) frozen_clock)) = Inr 1
   \<and> status (store (snd (buy_number demo_client Telegram Russia
          (demo_world (always purchase_waiting) frozen_clock))) 1) = WaitingForCode
   \<and> WaitingForCode \<noteq> Ready"
  by (simp add: demo_buy_waiting)

text \<open>
  C5, as amended. When \<^verbatim>\<open>buy_number\<close> returns, it returns a new context (a reference that
  was free, every other object untouched) whose \<open>phone_number\<close> and \<open>activation_id\<close>
  are the response's, whose status is the member whose value the response has under
  \<^verbatim>\<open>"status"\<close>, and whose code is None.
\<close>

theorem buy_number_fresh_context:
  assumes "\<And>url params. remote w (sent w) url params = Decoded (JDict d)"
    and "buy_number self service country w = (Inr r, w')"
  shows "r = next_ref w \<and> next_ref w' = Suc (next_ref w)
       \<and> store w' = (store w)(r := store w' r)
       \<and> map_of d ''phone_number'' = Some (phone_number (store w' r))
       \<and> map_of d ''activation_id'' = Some (activation_id (store w' r))
       \<and> map_of d ''status'' = Some (JStr (Status_value (status (store w' r))))
       \<and> code (store w' r) = JNull"
  using buy_number_Inr [OF assms(1) refl refl assms(2)] .

theorem buy_number_fresh_context_witness:
  "remote (demo_world (always purchase_waiting) frozen_clock)
      (sent (demo_world (always purchase_waiting) frozen_clock))
      ''http://getalts.club/api/buy_number''
      [(''service'', JStr ''tg''), (''country'', JStr ''ru''), (''token'', JStr ''secret'')]
     = Decoded purchase_waiting
   \<and> fst (buy_number demo_client Telegram Russia
          (demo_world (always purchase_waiting) frozen_clock)) = Inr 1
   \<and> next_ref (demo_world (always purchase_waiting) frozen_clock) = 1
   \<and> store (snd (buy_number demo_client Telegram Russia
          (demo_world (always purchase_waiting) frozen_clock))) 1
      = \<lparr>phone_number = JStr ''+79001234567'', activation_id = JInt 42,
         status = WaitingForCode, code = JNull\<rparr>"
  using buy_number_fresh_context [of "demo_world (always purchase_waiting) frozen_clock"
      "[(''phone_number'', JStr ''+79001234567''), (''activation_id'', JInt 42),
        (''status'', JStr ''STATUS_WAIT_CODE'')]" demo_client Telegram Russia 1,
      OF _ demo_buy_waiting]
  by (simp add: demo_buy_waiting) (simp add: demo_defs)

text \<open>
  C10. Whatever the purchase response holds, also under \<^verbatim>\<open>"code"\<close>, the context that
  \<^verbatim>\<open>buy_number\<close> returns has code None.
\<close>

theorem buy_number_ignores_code:
  assumes "buy_number self service country w = (Inr r, w')"
  shows "code (store w' r) = JNull"
proof -
  from assms obtain response w1 where "from_dict response w1 = (Inr r, w')"
    by (auto simp: buy_number_def split: prod.splits sum.splits)
  then show ?thesis
    by (auto simp: from_dict_def split: sum.splits)
qed

lemma demo_buy_with_code:
  "buy_number demo_client Telegram Russia (demo_world (always purchase_ready) frozen_clock) =
     (Inr 1, (demo_world (always purchase_ready) frozen_clock)
        \<lparr>store := (\<lambda>r. demo_context)(1 :=
            \<lparr>phone_number = JStr ''+79001234567'', activation_id = JInt 42,
             status = Ready, code = JNull\<rparr>),
         next_ref := 2, sent := 1,
         trace := [Request ''http://getalts.club/api/buy_number''
                    [(''service'', JStr ''tg''), (''country'', JStr ''ru''),
                     (''token'', JStr ''secret'')]]\<rparr>)"
  by (simp add: client_defs demo_defs)

theorem buy_number_ignores_code_witness:
  "map_of [(''phone_number'', JStr ''+79001234567''), (''activation_id'', JInt 42),
            (''status'', JStr ''READY''), (''code'', JInt 12345)] ''code'' = Some (JInt 12345)
   \<and> fst (buy_number demo_client Telegram Russia
          (demo_world (always purchase_ready) frozen_clock)) = Inr 1
   \<and> code (store (snd (buy_number demo_client Telegram Russia
          (demo_world (always purchase_ready) frozen_clock))) 1) = JNull"
  using buy_number_ignores_code [OF demo_buy_with_code]
  by (simp add: demo_buy_with_code)

section \<open>Cancelling\<close>

lemma context_from_response_trace:
  "trace (snd (context_from_response c response w)) = trace w"
  by (cases response)
     (auto simp: context_from_response_def getitem_def dict_get_def Let_def
           split: option.splits sum.splits)

lemma set_activation_status_trace:
  "trace (snd (set_activation_status self c a w)) =
     trace w @ [Request ''http://getalts.club/api/set_activation_status''
                 [(''activation_id'', activation_id (store w c)),
                  (''status'', JStr (lower (Action_value a))),
                  (''token'', JStr (token self))]]"
proof -
  let ?qp = "Some [(''activation_id'', activation_id (store w c)),
                   (''status'', JStr (lower (Action_value a)))]"
  obtain res w1 where g: "client_get self ''set_activation_status'' ?qp w = (res, w1)"
    by (cases "client_get self ''set_activation_status'' ?qp w")
  have t: "trace w1 = trace w @ [Request (endpoint ''set_activation_status'')
                                   (request_params self ?qp)]"
    using client_get_world [of self "''set_activation_status''" ?qp w] g by simp
  have "trace (snd (set_activation_status self c a w)) = trace w1"
    using g context_from_response_trace
    by (cases res) (simp_all add: set_activation_status_def)
  with t show ?thesis
    by (simp add: endpoint_def base_url_def request_params_def)
qed

lemma set_activation_status_failure:
  assumes "set_activation_status self c a w = (Inl e, w1)"
  shows "store w1 = store w"
  using then_context_from_response_failure [OF assms [unfolded set_activation_status_def]]
  by (simp add: store_after_get)

lemma lower_cancel: "lower ''CANCEL'' = ''cancel''"
  by (simp add: lower_def lower_char_def)

lemma lower_already_used: "lower ''ALREADY_USED'' = ''already_used''"
  by (simp add: lower_def lower_char_def)

text \<open>
  C3. \<^verbatim>\<open>cancel_activation\<close> first sends the action \<^verbatim>\<open>cancel\<close>. If that attempt raises
  \<^verbatim>\<open>GetAltsAPIError\<close>, the result is that of \<^verbatim>\<open>mark_number_as_already_used\<close>, and the
  requests sent are the \<^verbatim>\<open>cancel\<close> and then exactly one \<^verbatim>\<open>already_used\<close>. If the attempt
  returns, its result is returned and the one request sent is the \<^verbatim>\<open>cancel\<close>. If it
  raises anything else, that exception is the result, again after the one request.
\<close>

theorem cancel_activation_falls_back:
  "(set_activation_status self c Cancel w = (Inl (GetAltsAPIError msg), w1) \<longrightarrow>
      cancel_activation self c w = mark_number_as_already_used self c w1
    \<and> trace (snd (cancel_activation self c w)) =
        trace w @ [Request ''http://getalts.club/api/set_activation_status''
                     [(''activation_id'', activation_id (store w c)),
                      (''status'', JStr ''cancel''), (''token'', JStr (token self))],
                   Request ''http://getalts.club/api/set_activation_status''
                     [(''activation_id'', activation_id (store w c)),
                      (''status'', JStr ''already_used''), (''token'', JStr (token self))]])
   \<and> (set_activation_status self c Cancel w = (Inr r, w2) \<longrightarrow>
      cancel_activation self c w = (Inr r, w2)
    \<and> trace w2 =
        trace w @ [Request ''http://getalts.club/api/set_activation_status''
                     [(''activation_id'', activation_id (store w c)),
                      (''status'', JStr ''cancel''), (''token'', JStr (token self))]])
   \<and> (set_activation_status self c Cancel w = (Inl e, w3) \<and> \<not> is_api_error e \<longrightarrow>
      cancel_activation self c w = (Inl e, w3)
    \<and> trace w3 =
        trace w @ [Request ''http://getalts.club/api/set_activation_status''
                     [(''activation_id'', activation_id (store w c)),
                      (''status'', JStr ''cancel''), (''token'', JStr (token self))]])"
proof (intro conjI impI)
  assume a: "set_activation_status self c Cancel w = (Inl (GetAltsAPIError msg), w1)"
  then show f: "cancel_activation self c w = mark_number_as_already_used self c w1"
    by (simp add: cancel_activation_def)
  have "trace w1 = trace w @ [Request ''http://getalts.club/api/set_activation_status''
                     [(''activation_id'', activation_id (store w c)),
                      (''status'', JStr ''cancel''), (''token'', JStr (token self))]]"
    using set_activation_status_trace [of self c Cancel w] a by (simp add: lower_cancel)
  moreover have "store w1 = store w" by (rule set_activation_status_failure [OF a])
  ultimately show "trace (snd (cancel_activation self c w)) =
        trace w @ [Request ''http://getalts.club/api/set_activation_status''
                     [(''activation_id'', activation_id (store w c)),
                      (''status'', JStr ''cancel''), (''token'', JStr (token self))],
                   Request ''http://getalts.club/api/set_activation_status''
                     [(''activation_id'', activation_id (store w c)),
                      (''status'', JStr ''already_used''), (''token'', JStr (token self))]]"
    unfolding f mark_number_as_already_used_def
    by (simp add: set_activation_status_trace lower_already_used)
next
  assume a: "set_activation_status self c Cancel w = (Inr r, w2)"
  then show "cancel_activation self c w = (Inr r, w2)"
    by (simp add: cancel_activation_def)
  show "trace w2 = trace w @ [Request ''http://getalts.club/api/set_activation_status''
                     [(''activation_id'', activation_id (store w c)),
                      (''status'', JStr ''cancel''), (''token'', JStr (token self))]]"
    using set_activation_status_trace [of self c Cancel w] a by (simp add: lower_cancel)
next
  assume a: "set_activation_status self c Cancel w = (Inl e, w3) \<and> \<not> is_api_error e"
  then show "cancel_activation self c w = (Inl e, w3)"
    by (cases e) (simp_all add: cancel_activation_def)
  show "trace w3 = trace w @ [Request ''http://getalts.club/api/set_activation_status''
                     [(''activation_id'', activation_id (store w c)),
                      (''status'', JStr ''cancel''), (''token'', JStr (token self))]]"
    using set_activation_status_trace [of self c Cancel w] a by (simp add: lower_cancel)
qed

lemma demo_cancel_rejected:
  "set_activation_status demo_client 0 Cancel (demo_world rejects_cancel frozen_clock) =
     (Inl (GetAltsAPIError (JStr ''BAD_STATUS'')),
      (demo_world rejects_cancel frozen_clock)
        \<lparr>sent := 1, trace := [set_status_request ''cancel'']\<rparr>)"
  by (simp add: client_defs demo_defs)

lemma demo_cancel_accepted:
  "set_activation_status demo_client 0 Cancel
      (demo_world (always (JDict [(''status'', JStr ''ACCESS_CANCEL'')])) frozen_clock) =
     (Inr 0, (demo_world (always (JDict [(''status'', JStr ''ACCESS_CANCEL'')])) frozen_clock)
        \<lparr>store := (\<lambda>r. demo_context)(0 := demo_context\<lparr>status := Cancelled, code := JNull\<rparr>),
         sent := 1, trace := [set_status_request ''cancel'']\<rparr>)"
  by (simp add: client_defs demo_defs)

lemma demo_cancel_unreachable:
  "set_activation_status demo_client 0 Cancel (demo_world unreachable frozen_clock) =
     (Inl (TransportError ''timeout''),
      (demo_world unreachable frozen_clock)
        \<lparr>sent := 1, trace := [set_status_request ''cancel'']\<rparr>)"
  by (simp add: client_defs demo_defs)

theorem cancel_activation_falls_back_witness:
  "set_activation_status demo_client 0 Cancel (demo_world rejects_cancel frozen_clock) =
     (Inl (GetAltsAPIError (JStr ''BAD_STATUS'')),
      (demo_world rejects_cancel frozen_clock)
        \<lparr>sent := 1, trace := [set_status_request ''cancel'']\<rparr>)
   \<and> fst (cancel_activation demo_client 0 (demo_world rejects_cancel frozen_clock)) = Inr 0
   \<and> trace (snd (cancel_activation demo_client 0 (demo_world rejects_cancel frozen_clock))) =
       [set_status_request ''cancel'', set_status_request ''already_used'']
   \<and> fst (cancel_activation demo_client 0
        (demo_world (always (JDict [(''status'', JStr ''ACCESS_CANCEL'')])) frozen_clock)) = Inr 0
   \<and> trace (snd (cancel_activation demo_client 0
        (demo_world (always (JDict [(''status'', JStr ''ACCESS_CANCEL'')])) frozen_clock))) =
       [set_status_request ''cancel'']
   \<and> \<not> is_api_error (TransportError ''timeout'')
   \<and> fst (cancel_activation demo_client 0 (demo_world unreachable frozen_clock)) =
       Inl (TransportError ''timeout'')
   \<and> trace (snd (cancel_activation demo_client 0 (demo_world unreachable frozen_clock))) =
       [set_status_request ''cancel'']"
  using
    cancel_activation_falls_back [of demo_client 0 "demo_world rejects_cancel frozen_clock"
      "JStr ''BAD_STATUS''"
      "(demo_world rejects_cancel frozen_clock)\<lparr>sent := 1, trace := [set_status_request ''cancel'']\<rparr>"
      0 "demo_world unreachable frozen_clock" NoCodeReceived
      "demo_world unreachable frozen_clock"]
    cancel_activation_falls_back [of demo_client 0
      "demo_world (always (JDict [(''status'', JStr ''ACCESS_CANCEL'')])) frozen_clock"
      JNull "demo_world unreachable frozen_clock" 0
      "(demo_world (always (JDict [(''status'', JStr ''ACCESS_CANCEL'')])) frozen_clock)
        \<lparr>store := (\<lambda>r. demo_context)(0 := demo_context\<lparr>status := Cancelled, code := JNull\<rparr>),
         sent := 1, trace := [set_status_request ''cancel'']\<rparr>"
      NoCodeReceived "demo_world unreachable frozen_clock"]
    cancel_activation_falls_back [of demo_client 0 "demo_world unreachable frozen_clock"
      JNull "demo_world unreachable frozen_clock" 0 "demo_world unreachable frozen_clock"
      "TransportError ''timeout''"
      "(demo_world unreachable frozen_clock)\<lparr>sent := 1, trace := [set_status_request ''cancel'']\<rparr>"]
  apply (simp only: demo_cancel_rejected demo_cancel_accepted demo_cancel_unreachable)
  apply (simp add: client_defs demo_defs mark_number_as_already_used_def)
  done

section \<open>The polling loop\<close>

lemma micros_range: "0 \<le> micros t \<and> micros t \<le> datetime_max"
  using Rep_datetime [of t] by (simp add: micros_def)

lemma micros_datetime_of: "micros (datetime_of i) = max 0 (min datetime_max i)"
  by (simp add: micros_def datetime_of_def Abs_datetime_inverse datetime_max_def)

lemma datetime_of_micros: "datetime_of (micros t) = t"
  using micros_range [of t]
  by (simp add: datetime_of_def micros_def Rep_datetime_inverse)

lemma datetime_add_zero: "datetime_add t 0 = Inr t"
  using micros_range [of t] by (simp add: datetime_add_def datetime_of_micros)

lemma poll_loop_overflow:
  assumes "datetime_add start max_wait = Inl e"
  shows "poll_loop self c start max_wait w = Some (Inl e, w\<lparr>ticks := Suc (ticks w)\<rparr>)"
  using assms by (subst poll_loop.simps) (simp add: datetime_now_def)

lemma poll_loop_timeout:
  assumes "datetime_add start max_wait = Inr deadline"
    and "micros deadline < micros (clock w (ticks w))"
  shows "poll_loop self c start max_wait w =
           Some (Inl NoCodeReceived, w\<lparr>ticks := Suc (ticks w)\<rparr>)"
  using assms by (subst poll_loop.simps) (simp add: datetime_now_def)

lemma poll_loop_error:
  assumes "datetime_add start max_wait = Inr deadline"
    and "micros (clock w (ticks w)) \<le> micros deadline"
    and "get_activation_status self c (w\<lparr>ticks := Suc (ticks w)\<rparr>) = (Inl e, w2)"
  shows "poll_loop self c start max_wait w = Some (Inl e, w2)"
  using assms by (subst poll_loop.simps) (simp add: datetime_now_def)

lemma poll_loop_found:
  assumes "datetime_add start max_wait = Inr deadline"
    and "micros (clock w (ticks w)) \<le> micros deadline"
    and "get_activation_status self c (w\<lparr>ticks := Suc (ticks w)\<rparr>) = (Inr c', w2)"
    and "code (store w2 c') \<noteq> JNull"
  shows "poll_loop self c start max_wait w = Some (Inr c', w2)"
  using assms by (subst poll_loop.simps) (simp add: datetime_now_def)

lemma poll_loop_again:
  assumes "datetime_add start max_wait = Inr deadline"
    and "micros (clock w (ticks w)) \<le> micros deadline"
    and "get_activation_status self c (w\<lparr>ticks := Suc (ticks w)\<rparr>) = (Inr c', w2)"
    and "code (store w2 c') = JNull"
  shows "poll_loop self c start max_wait w =
           poll_loop self c' start max_wait (asyncio_sleep 5 w2)"
  using assms by (subst poll_loop.simps) (simp add: datetime_now_def)

lemma get_activation_status_dict:
  assumes "remote w (sent w) ''http://getalts.club/api/get_activation_status''
             [(''activation_id'', activation_id (store w c)), (''token'', JStr (token self))]
           = Decoded (JDict d)"
    and "map_of d ''error'' = None"
    and "map_of d ''status'' = Some (JStr (Status_value s))"
  shows "get_activation_status self c w =
    (Inr c, w\<lparr>store := (store w)(c := (store w c)\<lparr>status := s,
                 code := (case map_of d ''code'' of Some v \<Rightarrow> v | None \<Rightarrow> JNull)\<rparr>),
             sent := Suc (sent w),
             trace := trace w @ [Request ''http://getalts.club/api/get_activation_status''
               [(''activation_id'', activation_id (store w c)),
                (''token'', JStr (token self))]]\<rparr>)"
proof -
  let ?qp = "Some [(''activation_id'', activation_id (store w c))]"
  have e: "endpoint ''get_activation_status'' = ''http://getalts.club/api/get_activation_status''"
    by (simp add: endpoint_def base_url_def)
  have p: "request_params self ?qp =
      [(''activation_id'', activation_id (store w c)), (''token'', JStr (token self))]"
    by (simp add: request_params_def)
  have g: "remote w (sent w) (endpoint ''get_activation_status'') (request_params self ?qp)
           = Decoded (JDict d)"
    using assms(1) by (simp only: e p)
  show ?thesis
    unfolding get_activation_status_def client_get_dict [OF g]
    by (simp add: assms(2) context_from_response_dict [OF assms(3)] e p)
qed

lemma poll_loop_no_code:
  assumes "datetime_add start max_wait = Inr deadline"
    and "micros (clock w (ticks w)) \<le> micros deadline"
    and "remote w (sent w) ''http://getalts.club/api/get_activation_status''
             [(''activation_id'', activation_id (store w c)), (''token'', JStr (token self))]
           = Decoded (JDict d)"
    and "map_of d ''error'' = None"
    and "map_of d ''status'' = Some (JStr (Status_value s))"
    and "map_of d ''code'' \<in> {None, Some JNull}"
  shows "poll_loop self c start max_wait w =
     poll_loop self c start max_wait
       (w\<lparr>ticks := Suc (ticks w),
          store := (store w)(c := (store w c)\<lparr>status := s, code := JNull\<rparr>),
          sent := Suc (sent w),
          trace := trace w @ [Request ''http://getalts.club/api/get_activation_status''
               [(''activation_id'', activation_id (store w c)), (''token'', JStr (token self))], Sleep 5]\<rparr>)"
proof -
  let ?w1 = "w\<lparr>ticks := Suc (ticks w)\<rparr>"
  have k: "(case map_of d ''code'' of Some v \<Rightarrow> v | None \<Rightarrow> JNull) = JNull"
    using assms(6) by auto
  have g: "get_activation_status self c ?w1 =
    (Inr c, ?w1\<lparr>store := (store w)(c := (store w c)\<lparr>status := s, code := JNull\<rparr>),
             sent := Suc (sent w),
             trace := trace w @ [Request ''http://getalts.club/api/get_activation_status''
               [(''activation_id'', activation_id (store w c)), (''token'', JStr (token self))]]\<rparr>)"
    using get_activation_status_dict [of ?w1 c self d s] assms(3,4,5) by (simp add: k)
  show ?thesis
    by (subst poll_loop_again [OF assms(1,2) g]) (simp_all add: asyncio_sleep_def)
qed

lemma poll_loop_code:
  assumes "datetime_add start max_wait = Inr deadline"
    and "micros (clock w (ticks w)) \<le> micros deadline"
    and "remote w (sent w) ''http://getalts.club/api/get_activation_status''
             [(''activation_id'', activation_id (store w c)), (''token'', JStr (token self))]
           = Decoded (JDict d)"
    and "map_of d ''error'' = None"
    and "map_of d ''status'' = Some (JStr (Status_value s))"
    and "map_of d ''code'' = Some k" and "k \<noteq> JNull"
  shows "poll_loop self c start max_wait w =
     Some (Inr c,
       w\<lparr>ticks := Suc (ticks w),
          store := (store w)(c := (store w c)\<lparr>status := s, code := k\<rparr>),
          sent := Suc (sent w),
          trace := trace w @ [Request ''http://getalts.club/api/get_activation_status''
               [(''activation_id'', activation_id (store w c)), (''token'', JStr (token self))]]\<rparr>)"
proof -
  let ?w1 = "w\<lparr>ticks := Suc (ticks w)\<rparr>"
  have g: "get_activation_status self c ?w1 =
    (Inr c, ?w1\<lparr>store := (store w)(c := (store w c)\<lparr>status := s, code := k\<rparr>),
             sent := Suc (sent w),
             trace := trace w @ [Request ''http://getalts.club/api/get_activation_status''
               [(''activation_id'', activation_id (store w c)), (''token'', JStr (token self))]]\<rparr>)"
    using get_activation_status_dict [of ?w1 c self d s] assms(3,4,5,6) by simp
  show ?thesis
    by (subst poll_loop_found [OF assms(1,2) g]) (simp_all add: assms(7))
qed

lemma overflow_at_first_check:
  assumes "datetime_add (clock w (ticks w)) max_wait = Inl e"
  shows "register_code_received_callback self cb c max_wait w =
           Some (Inl e, w\<lparr>ticks := ticks w + 2\<rparr>)"
  using poll_loop_overflow [OF assms, of self c "w\<lparr>ticks := Suc (ticks w)\<rparr>"]
  by (simp add: register_code_received_callback_def datetime_now_def)

lemma one_poll_then_timeout:
  assumes deadline:
      "datetime_add (clock w (ticks w)) max_wait = Inr deadline"
      "micros (clock w (ticks w + 1)) \<le> micros deadline"
      "micros deadline < micros (clock w (ticks w + 2))"
    and first: "remote w (sent w) ''http://getalts.club/api/get_activation_status''
             [(''activation_id'', activation_id (store w c)), (''token'', JStr (token self))]
           = Decoded (JDict d1)"
      "map_of d1 ''error'' = None" "map_of d1 ''status'' = Some (JStr (Status_value s1))"
      "map_of d1 ''code'' \<in> {None, Some JNull}"
  shows "register_code_received_callback self cb c max_wait w =
     Some (Inl NoCodeReceived,
       w\<lparr>ticks := ticks w + 3,
          store := (store w)(c := (store w c)\<lparr>status := s1, code := JNull\<rparr>),
          sent := sent w + 1,
          trace := trace w @
            [Request ''http://getalts.club/api/get_activation_status''
               [(''activation_id'', activation_id (store w c)), (''token'', JStr (token self))],
             Sleep 5]\<rparr>)"
proof -
  let ?req = "Request ''http://getalts.club/api/get_activation_status''
               [(''activation_id'', activation_id (store w c)), (''token'', JStr (token self))]"
  let ?t0 = "clock w (ticks w)"
  let ?w1 = "w\<lparr>ticks := Suc (ticks w)\<rparr>"
  let ?w2 = "w\<lparr>ticks := ticks w + 2,
          store := (store w)(c := (store w c)\<lparr>status := s1, code := JNull\<rparr>),
          sent := Suc (sent w), trace := trace w @ [?req, Sleep 5]\<rparr>"
  have "poll_loop self c ?t0 max_wait ?w1 = poll_loop self c ?t0 max_wait ?w2"
    using poll_loop_no_code [of ?t0 max_wait deadline ?w1 c self d1 s1] deadline(1,2) first
    by (simp add: eval_nat_numeral)
  also have "\<dots> = Some (Inl NoCodeReceived, ?w2\<lparr>ticks := Suc (ticks ?w2)\<rparr>)"
    using poll_loop_timeout [of ?t0 max_wait deadline ?w2 self c] deadline(1,3)
    by (simp add: eval_nat_numeral)
  finally show ?thesis
    by (simp add: register_code_received_callback_def datetime_now_def eval_nat_numeral)
qed

lemma two_polls_then_timeout:
  assumes deadline:
      "datetime_add (clock w (ticks w)) max_wait = Inr deadline"
      "micros (clock w (ticks w + 1)) \<le> micros deadline"
      "micros (clock w (ticks w + 2)) \<le> micros deadline"
      "micros deadline < micros (clock w (ticks w + 3))"
    and first: "remote w (sent w) ''http://getalts.club/api/get_activation_status''
             [(''activation_id'', activation_id (store w c)), (''token'', JStr (token self))]
           = Decoded (JDict d1)"
      "map_of d1 ''error'' = None" "map_of d1 ''status'' = Some (JStr (Status_value s1))"
      "map_of d1 ''code'' \<in> {None, Some JNull}"
    and second: "remote w (sent w + 1) ''http://getalts.club/api/get_activation_status''
             [(''activation_id'', activation_id (store w c)), (''token'', JStr (token self))]
           = Decoded (JDict d2)"
      "map_of d2 ''error'' = None" "map_of d2 ''status'' = Some (JStr (Status_value s2))"
      "map_of d2 ''code'' \<in> {None, Some JNull}"
  shows "register_code_received_callback self cb c max_wait w =
     Some (Inl NoCodeReceived,
       w\<lparr>ticks := ticks w + 4,
          store := (store w)(c := (store w c)\<lparr>status := s2, code := JNull\<rparr>),
          sent := sent w + 2,
          trace := trace w @
            [Request ''http://getalts.club/api/get_activation_status''
               [(''activation_id'', activation_id (store w c)), (''token'', JStr (token self))],
             Sleep 5,
             Request ''http://getalts.club/api/get_activation_status''
               [(''activation_id'', activation_id (store w c)), (''token'', JStr (token self))],
             Sleep 5]\<rparr>)"
proof -
  let ?req = "Request ''http://getalts.club/api/get_activation_status''
               [(''activation_id'', activation_id (store w c)), (''token'', JStr (token self))]"
  let ?t0 = "clock w (ticks w)"
  let ?w1 = "w\<lparr>ticks := Suc (ticks w)\<rparr>"
  let ?w2 = "w\<lparr>ticks := ticks w + 2,
          store := (store w)(c := (store w c)\<lparr>status := s1, code := JNull\<rparr>),
          sent := Suc (sent w), trace := trace w @ [?req, Sleep 5]\<rparr>"
  let ?w3 = "w\<lparr>ticks := ticks w + 3,
          store := (store w)(c := (store w c)\<lparr>status := s2, code := JNull\<rparr>),
          sent := sent w + 2,
          trace := trace w @ [?req, Sleep 5, ?req, Sleep 5]\<rparr>"
  have "poll_loop self c ?t0 max_wait ?w1 = poll_loop self c ?t0 max_wait ?w2"
    using poll_loop_no_code [of ?t0 max_wait deadline ?w1 c self d1 s1] deadline(1,2) first
    by (simp add: eval_nat_numeral)
  also have "\<dots> = poll_loop self c ?t0 max_wait ?w3"
    using poll_loop_no_code [of ?t0 max_wait deadline ?w2 c self d2 s2] deadline(1,3) second
    by (simp add: eval_nat_numeral)
  also have "\<dots> = Some (Inl NoCodeReceived, ?w3\<lparr>ticks := Suc (ticks ?w3)\<rparr>)"
    using poll_loop_timeout [of ?t0 max_wait deadline ?w3 self c] deadline(1,4)
    by (simp add: eval_nat_numeral)
  finally show ?thesis
    by (simp add: register_code_received_callback_def datetime_now_def eval_nat_numeral)
qed

lemma three_polls_find_code:
  assumes deadline:
      "datetime_add (clock w (ticks w)) max_wait = Inr deadline"
      "micros (clock w (ticks w + 1)) \<le> micros deadline"
      "micros (clock w (ticks w + 2)) \<le> micros deadline"
      "micros (clock w (ticks w + 3)) \<le> micros deadline"
    and first: "remote w (sent w) ''http://getalts.club/api/get_activation_status''
             [(''activation_id'', activation_id (store w c)), (''token'', JStr (token self))]
           = Decoded (JDict d1)"
      "map_of d1 ''error'' = None" "map_of d1 ''status'' = Some (JStr (Status_value s1))"
      "map_of d1 ''code'' \<in> {None, Some JNull}"
    and second: "remote w (sent w + 1) ''http://getalts.club/api/get_activation_status''
             [(''activation_id'', activation_id (store w c)), (''token'', JStr (token self))]
           = Decoded (JDict d2)"
      "map_of d2 ''error'' = None" "map_of d2 ''status'' = Some (JStr (Status_value s2))"
      "map_of d2 ''code'' \<in> {None, Some JNull}"
    and third: "remote w (sent w + 2) ''http://getalts.club/api/get_activation_status''
             [(''activation_id'', activation_id (store w c)), (''token'', JStr (token self))]
           = Decoded (JDict d3)"
      "map_of d3 ''error'' = None" "map_of d3 ''status'' = Some (JStr (Status_value s3))"
      "map_of d3 ''code'' = Some k" "k \<noteq> JNull"
  shows "register_code_received_callback self cb c max_wait w =
     Some (call_callback cb c
       (w\<lparr>ticks := ticks w + 4,
          store := (store w)(c := (store w c)\<lparr>status := s3, code := k\<rparr>),
          sent := sent w + 3,
          trace := trace w @
            [Request ''http://getalts.club/api/get_activation_status''
               [(''activation_id'', activation_id (store w c)), (''token'', JStr (token self))],
             Sleep 5,
             Request ''http://getalts.club/api/get_activation_status''
               [(''activation_id'', activation_id (store w c)), (''token'', JStr (token self))],
             Sleep 5,
             Request ''http://getalts.club/api/get_activation_status''
               [(''activation_id'', activation_id (store w c)), (''token'', JStr (token self))]]\<rparr>))"
proof -
  let ?req = "Request ''http://getalts.club/api/get_activation_status''
               [(''activation_id'', activation_id (store w c)), (''token'', JStr (token self))]"
  let ?t0 = "clock w (ticks w)"
  let ?w1 = "w\<lparr>ticks := Suc (ticks w)\<rparr>"
  let ?w2 = "w\<lparr>ticks := ticks w + 2,
          store := (store w)(c := (store w c)\<lparr>status := s1, code := JNull\<rparr>),
          sent := Suc (sent w), trace := trace w @ [?req, Sleep 5]\<rparr>"
  let ?w3 = "w\<lparr>ticks := ticks w + 3,
          store := (store w)(c := (store w c)\<lparr>status := s2, code := JNull\<rparr>),
          sent := sent w + 2,
          trace := trace w @ [?req, Sleep 5, ?req, Sleep 5]\<rparr>"
  let ?w4 = "w\<lparr>ticks := ticks w + 4,
          store := (store w)(c := (store w c)\<lparr>status := s3, code := k\<rparr>),
          sent := sent w + 3,
          trace := trace w @ [?req, Sleep 5, ?req, Sleep 5, ?req]\<rparr>"
  have "poll_loop self c ?t0 max_wait ?w1 = poll_loop self c ?t0 max_wait ?w2"
    using poll_loop_no_code [of ?t0 max_wait deadline ?w1 c self d1 s1] deadline(1,2) first
    by (simp add: eval_nat_numeral)
  also have "\<dots> = poll_loop self c ?t0 max_wait ?w3"
    using poll_loop_no_code [of ?t0 max_wait deadline ?w2 c self d2 s2] deadline(1,3) second
    by (simp add: eval_nat_numeral)
  also have "\<dots> = Some (Inr c, ?w4)"
    using poll_loop_code [of ?t0 max_wait deadline ?w3 c self d3 s3 k] deadline(1,4) third
    by (simp add: eval_nat_numeral)
  finally have "poll_loop self c ?t0 max_wait ?w1 = Some (Inr c, ?w4)" .
  then show ?thesis
    by (simp add: register_code_received_callback_def datetime_now_def)
qed

lemmas loop_demo_defs =
  demo_world_def demo_client_def demo_context_def always_def code_on_third_def
  still_waiting_def code_arrived_def frozen_clock_def sleeping_clock_def coarse_clock_def
  running_clock_def do_nothing_def gives_up_def observed_def status_request_def
  datetime_add_def micros_datetime_of datetime_max_def timedelta_max_def call_callback_def

text \<open>
  C1 as stated fails, in three ways. A deadline check can end the wait before the third
  poll: with \<^verbatim>\<open>max_wait\<close> of 7 seconds and a clock that advances by the 5 seconds slept,
  a service that would report the code on the third request is asked twice, the third
  check raises \<^verbatim>\<open>NoCodeReceived\<close> and the callback is never called. The call need not
  return normally after the callback: a callback that raises is called once, after
  three polls and two sleeps, and the call raises its exception. The deadline itself
  may not exist: with \<^verbatim>\<open>max_wait = timedelta.max\<close> the sum \<^verbatim>\<open>start + max_wait\<close> raises
  \<^verbatim>\<open>OverflowError\<close> at the first check, before any poll.
\<close>

theorem three_polls_not_guaranteed:
  "observed (register_code_received_callback demo_client (Function do_nothing) 0 7000000
       (demo_world code_on_third sleeping_clock)) =
     Some (Inl NoCodeReceived, [status_request, Sleep 5, status_request, Sleep 5])
   \<and> observed (register_code_received_callback demo_client (Function gives_up) 0 60000000
       (demo_world code_on_third frozen_clock)) =
     Some (Inl (OtherException ''callback failed''),
           [status_request, Sleep 5, status_request, Sleep 5, status_request, Invoke 0])
   \<and> observed (register_code_received_callback demo_client (Function do_nothing) 0 timedelta_max
       (demo_world code_on_third frozen_clock)) =
     Some (Inl OverflowError, [])"
proof (intro conjI)
  show "observed (register_code_received_callback demo_client (Function do_nothing) 0 7000000
       (demo_world code_on_third sleeping_clock)) =
     Some (Inl NoCodeReceived, [status_request, Sleep 5, status_request, Sleep 5])"
    using two_polls_then_timeout [where w = "demo_world code_on_third sleeping_clock"
      and max_wait = 7000000 and deadline = "datetime_of 7000000"
      and c = 0 and self = demo_client
      and ?d1.0 = "[(''status'', JStr ''STATUS_WAIT_CODE'')]" and ?s1.0 = WaitingForCode
      and ?d2.0 = "[(''status'', JStr ''STATUS_WAIT_CODE'')]" and ?s2.0 = WaitingForCode
      and cb = "Function do_nothing"]
    by (simp add: loop_demo_defs)
  show "observed (register_code_received_callback demo_client (Function gives_up) 0 60000000
       (demo_world code_on_third frozen_clock)) =
     Some (Inl (OtherException ''callback failed''),
           [status_request, Sleep 5, status_request, Sleep 5, status_request, Invoke 0])"
    using three_polls_find_code [where w = "demo_world code_on_third frozen_clock"
      and max_wait = 60000000 and deadline = "datetime_of 60000000"
      and c = 0 and self = demo_client
      and ?d1.0 = "[(''status'', JStr ''STATUS_WAIT_CODE'')]" and ?s1.0 = WaitingForCode
      and ?d2.0 = "[(''status'', JStr ''STATUS_WAIT_CODE'')]" and ?s2.0 = WaitingForCode
      and ?d3.0 = "[(''status'', JStr ''STATUS_OK''), (''code'', JInt 12345)]"
      and ?s3.0 = StatusOk and k = "JInt 12345" and cb = "Function gives_up"]
    by (simp add: loop_demo_defs)
  show "observed (register_code_received_callback demo_client (Function do_nothing) 0 timedelta_max
       (demo_world code_on_third frozen_clock)) =
     Some (Inl OverflowError, [])"
    using overflow_at_first_check [where w = "demo_world code_on_third frozen_clock"
      and max_wait = timedelta_max and e = OverflowError
      and c = 0 and self = demo_client and cb = "Function do_nothing"]
    by (simp add: loop_demo_defs)
qed

text \<open>
  C1, as amended. If the deadline \<^verbatim>\<open>start + max_wait\<close> is a datetime, none of the first
  three deadline checks finds the clock later than it, and the service answers the
  first two status requests without a code and the third with one, then the call sends
  exactly three status requests, sleeps 5 seconds after the first and after the second,
  and then calls the callback once, on the context it was given, refreshed by the third
  response. The call ends as that one callback call ends: it returns normally if the
  callback does, and raises what the callback raises.
\<close>

theorem three_polls_then_callback:
  assumes deadline:
      "datetime_add (clock w (ticks w)) max_wait = Inr deadline"
      "micros (clock w (ticks w + 1)) \<le> micros deadline"
      "micros (clock w (ticks w + 2)) \<le> micros deadline"
      "micros (clock w (ticks w + 3)) \<le> micros deadline"
    and first: "remote w (sent w) ''http://getalts.club/api/get_activation_status''
             [(''activation_id'', activation_id (store w c)), (''token'', JStr (token self))]
           = Decoded (JDict d1)"
      "map_of d1 ''error'' = None" "map_of d1 ''status'' = Some (JStr (Status_value s1))"
      "map_of d1 ''code'' \<in> {None, Some JNull}"
    and second: "remote w (sent w + 1) ''http://getalts.club/api/get_activation_status''
             [(''activation_id'', activation_id (store w c)), (''token'', JStr (token self))]
           = Decoded (JDict d2)"
      "map_of d2 ''error'' = None" "map_of d2 ''status'' = Some (JStr (Status_value s2))"
      "map_of d2 ''code'' \<in> {None, Some JNull}"
    and third: "remote w (sent w + 2) ''http://getalts.club/api/get_activation_status''
             [(''activation_id'', activation_id (store w c)), (''token'', JStr (token self))]
           = Decoded (JDict d3)"
      "map_of d3 ''error'' = None" "map_of d3 ''status'' = Some (JStr (Status_value s3))"
      "map_of d3 ''code'' = Some k" "k \<noteq> JNull"
    and cb: "cb \<in> {Function f, CoroutineFunction f}"
  shows "register_code_received_callback self cb c max_wait w =
     Some (f c
       (w\<lparr>ticks := ticks w + 4,
          store := (store w)(c := (store w c)\<lparr>status := s3, code := k\<rparr>),
          sent := sent w + 3,
          trace := trace w @
            [Request ''http://getalts.club/api/get_activation_status''
               [(''activation_id'', activation_id (store w c)), (''token'', JStr (token self))],
             Sleep 5,
             Request ''http://getalts.club/api/get_activation_status''
               [(''activation_id'', activation_id (store w c)), (''token'', JStr (token self))],
             Sleep 5,
             Request ''http://getalts.club/api/get_activation_status''
               [(''activation_id'', activation_id (store w c)), (''token'', JStr (token self))],
             Invoke c]\<rparr>))"
  unfolding three_polls_find_code [OF deadline first second third]
  using cb by (auto simp: call_callback_def)

theorem three_polls_then_callback_witness:
  "datetime_add (clock (demo_world code_on_third frozen_clock)
        (ticks (demo_world code_on_third frozen_clock))) 60000000 = Inr (datetime_of 60000000)
   \<and> observed (register_code_received_callback demo_client (Function do_nothing) 0 60000000
       (demo_world code_on_third frozen_clock)) =
     Some (Inr (), [status_request, Sleep 5, status_request, Sleep 5, status_request, Invoke 0])"
  using three_polls_then_callback [where w = "demo_world code_on_third frozen_clock"
      and max_wait = 60000000 and deadline = "datetime_of 60000000"
      and c = 0 and self = demo_client
      and ?d1.0 = "[(''status'', JStr ''STATUS_WAIT_CODE'')]" and ?s1.0 = WaitingForCode
      and ?d2.0 = "[(''status'', JStr ''STATUS_WAIT_CODE'')]" and ?s2.0 = WaitingForCode
      and ?d3.0 = "[(''status'', JStr ''STATUS_OK''), (''code'', JInt 12345)]"
      and ?s3.0 = StatusOk and k = "JInt 12345"
      and cb = "Function do_nothing" and f = do_nothing]
  by (simp add: loop_demo_defs)

text \<open>
  C2 as stated fails: the deadline check is \<^verbatim>\<open>now > start + max_wait\<close>, and with
  \<^verbatim>\<open>max_wait\<close> zero it is false when the clock reads at the first check what it read at
  the start. The loop then asks the service and sleeps before the next check.
\<close>

theorem zero_wait_polls_when_clock_has_not_moved:
  "observed (register_code_received_callback demo_client (Function do_nothing) 0 0
       (demo_world (always still_waiting) coarse_clock)) =
     Some (Inl NoCodeReceived, [status_request, Sleep 5])"
  using one_poll_then_timeout [where w = "demo_world (always still_waiting) coarse_clock"
      and max_wait = 0 and deadline = "datetime_of 0" and c = 0 and self = demo_client
      and ?d1.0 = "[(''status'', JStr ''STATUS_WAIT_CODE'')]" and ?s1.0 = WaitingForCode
      and cb = "Function do_nothing"]
  by (simp add: loop_demo_defs)

text \<open>
  C2, as amended. With \<^verbatim>\<open>max_wait\<close> zero, if the clock reads later at the first deadline
  check than it read at the start, the call raises \<^verbatim>\<open>NoCodeReceived\<close> at that check:
  two clock readings were taken and nothing else changed, so no request was sent and
  there was no sleep.
\<close>

theorem immediate_timeout:
  assumes "micros (clock w (ticks w)) < micros (clock w (Suc (ticks w)))"
  shows "register_code_received_callback self cb c 0 w =
           Some (Inl NoCodeReceived, w\<lparr>ticks := ticks w + 2\<rparr>)"
proof -
  let ?w1 = "w\<lparr>ticks := Suc (ticks w)\<rparr>"
  have "micros (clock w (ticks w)) < micros (clock ?w1 (ticks ?w1))" using assms by simp
  from poll_loop_timeout [OF datetime_add_zero this, of self c]
  show ?thesis by (simp add: register_code_received_callback_def datetime_now_def)
qed

theorem immediate_timeout_witness:
  "micros (clock (demo_world (always still_waiting) running_clock)
       (ticks (demo_world (always still_waiting) running_clock)))
     < micros (clock (demo_world (always still_waiting) running_clock)
         (Suc (ticks (demo_world (always still_waiting) running_clock))))
   \<and> observed (register_code_received_callback demo_client (Function do_nothing) 0 0
        (demo_world (always still_waiting) running_clock)) = Some (Inl NoCodeReceived, [])"
  using immediate_timeout [of "demo_world (always still_waiting) running_clock"
      demo_client "Function do_nothing" 0]
  by (simp add: observed_def demo_world_def running_clock_def micros_datetime_of
        datetime_max_def)

end
